theory Spec2Isabelle
  imports Main "HOL-Library.AList"
begin

section \<open>The peer-side chaincode handler (openchain/chaincode/handler.go)\<close>

text \<open>
  A shallow embedding of \<^verbatim>\<open>handler.go\<close>. Go byte slices and strings are both
  \<open>string\<close>, so the conversions \<^verbatim>\<open>string(b)\<close> and \<^verbatim>\<open>[]byte(s)\<close> are the identity.
  A Go map is a partial function under an \<open>option\<close> (\<open>None\<close> is the nil map); the
  iterator table of a transaction context is an association list, because
  \<^verbatim>\<open>notify\<close> ranges over it. Calls on collaborators (stream, ledger, support plane,
  response channels) are recorded in an effect trace; what they return is read from
  an environment record. Log lines are left out, except where evaluating their
  arguments can panic.
\<close>

subsection \<open>Messages, transactions and errors\<close>

type_synonym bytes = string

text \<open>
  Modelled from the spec: the enumeration \<^verbatim>\<open>pb.ChaincodeMessage_Type\<close> is declared in
  the protos package, outside the source file; the constructors are the message types
  of the spec's stream contract (section 6), which are the ones the handler names.
\<close>

datatype ChaincodeMessage_Type =
    REGISTER | REGISTERED | INIT | READY | TRANSACTION | QUERY
  | PUT_STATE | DEL_STATE | INVOKE_CHAINCODE | INVOKE_QUERY
  | GET_STATE | RANGE_QUERY_STATE | RANGE_QUERY_STATE_NEXT | RANGE_QUERY_STATE_CLOSE
  | RESPONSE | ERROR | COMPLETED | QUERY_COMPLETED | QUERY_ERROR

fun Type_String :: "ChaincodeMessage_Type \<Rightarrow> string" where
  "Type_String REGISTER = ''REGISTER''"
| "Type_String REGISTERED = ''REGISTERED''"
| "Type_String INIT = ''INIT''"
| "Type_String READY = ''READY''"
| "Type_String TRANSACTION = ''TRANSACTION''"
| "Type_String QUERY = ''QUERY''"
| "Type_String PUT_STATE = ''PUT_STATE''"
| "Type_String DEL_STATE = ''DEL_STATE''"
| "Type_String INVOKE_CHAINCODE = ''INVOKE_CHAINCODE''"
| "Type_String INVOKE_QUERY = ''INVOKE_QUERY''"
| "Type_String GET_STATE = ''GET_STATE''"
| "Type_String RANGE_QUERY_STATE = ''RANGE_QUERY_STATE''"
| "Type_String RANGE_QUERY_STATE_NEXT = ''RANGE_QUERY_STATE_NEXT''"
| "Type_String RANGE_QUERY_STATE_CLOSE = ''RANGE_QUERY_STATE_CLOSE''"
| "Type_String RESPONSE = ''RESPONSE''"
| "Type_String ERROR = ''ERROR''"
| "Type_String COMPLETED = ''COMPLETED''"
| "Type_String QUERY_COMPLETED = ''QUERY_COMPLETED''"
| "Type_String QUERY_ERROR = ''QUERY_ERROR''"

record ChaincodeMessage =
  msg_Type :: ChaincodeMessage_Type
  msg_Payload :: bytes
  msg_Uuid :: string

text \<open>
  Modelled from the spec: \<^verbatim>\<open>pb.Transaction_Type\<close> is declared in the protos package.
  The handler names three values (the spec's DEPLOY is \<^verbatim>\<open>CHAINCODE_NEW\<close>); every
  other value of the enumeration is \<open>Transaction_OTHER\<close> with its printed name.
\<close>

datatype Transaction_Type =
    CHAINCODE_NEW | CHAINCODE_EXECUTE | CHAINCODE_QUERY | Transaction_OTHER string

fun Transaction_Type_String :: "Transaction_Type \<Rightarrow> string" where
  "Transaction_Type_String CHAINCODE_NEW = ''CHAINCODE_NEW''"
| "Transaction_Type_String CHAINCODE_EXECUTE = ''CHAINCODE_EXECUTE''"
| "Transaction_Type_String CHAINCODE_QUERY = ''CHAINCODE_QUERY''"
| "Transaction_Type_String (Transaction_OTHER s) = s"

record Transaction =
  tx_Type :: Transaction_Type
  tx_ChaincodeID :: bytes
  tx_Payload :: bytes
  tx_Uuid :: string

text \<open>
  Go errors by dynamic type. \<open>ErrorString\<close> is an error made by \<^verbatim>\<open>fmt.Errorf\<close> or
  returned by a collaborator, known by its text. The other constructors are the error
  types of the FSM library that \<^verbatim>\<open>filterError\<close> tells apart or that \<^verbatim>\<open>Event\<close> can
  return here; \<open>NoTransitionError\<close> and \<open>CanceledError\<close> carry the embedded \<^verbatim>\<open>Err\<close>.
\<close>

datatype error =
    ErrorString string
  | NoTransitionError "error option"
  | CanceledError "error option"
  | InvalidEventError string string
  | UnknownEventError string

fun Error :: "error \<Rightarrow> string" where
  "Error (ErrorString s) = s"
| "Error (NoTransitionError None) = ''no transition''"
| "Error (NoTransitionError (Some e)) = ''no transition with error: '' @ Error e"
| "Error (CanceledError None) = ''transition canceled''"
| "Error (CanceledError (Some e)) = ''transition canceled with error: '' @ Error e"
| "Error (InvalidEventError ev st) = ''event '' @ ev @ '' inappropriate in current state '' @ st"
| "Error (UnknownEventError ev) = ''event '' @ ev @ '' does not exist''"

subsection \<open>Collaborators\<close>

text \<open>
  Modelled from the spec: the interface \<^verbatim>\<open>statemgmt.RangeScanIterator\<close> is declared
  outside the source file. The spec gives it \<^verbatim>\<open>Next() -> bool\<close>,
  \<^verbatim>\<open>GetKeyValue() -> (key, value)\<close> and \<^verbatim>\<open>Close()\<close>, "returning key/value pairs in
  order until exhausted". The model is a cursor: the pair under it (none before the
  first \<open>Next\<close> and after the last) and the pairs still ahead. \<open>Close\<close> is an effect.
\<close>

record RangeScanIterator =
  it_cursor :: "(string \<times> bytes) option"
  it_ahead :: "(string \<times> bytes) list"

definition Next :: "RangeScanIterator \<Rightarrow> bool \<times> RangeScanIterator" where
  "Next it = (case it_ahead it of
                [] \<Rightarrow> (False, it\<lparr>it_cursor := None\<rparr>)
              | kv # rest \<Rightarrow> (True, \<lparr>it_cursor = Some kv, it_ahead = rest\<rparr>))"

definition GetKeyValue :: "RangeScanIterator \<Rightarrow> string \<times> bytes" where
  "GetKeyValue it = (case it_cursor it of Some kv \<Rightarrow> kv | None \<Rightarrow> ('''', ''''))"

text \<open>\<^verbatim>\<open>crypto.StateEncryptor\<close> and the security helper that derives one from two transactions.\<close>

record StateEncryptor =
  Encrypt :: "bytes \<Rightarrow> error + bytes"
  Decrypt :: "bytes \<Rightarrow> error + bytes"

record SecHelper =
  GetStateEncryptor :: "Transaction option \<Rightarrow> Transaction option \<Rightarrow> error + StateEncryptor option"

record ChaincodeID =
  cid_Path :: string
  cid_Name :: string

record RangeQueryState =
  rqs_StartKey :: string
  rqs_EndKey :: string

record RangeQueryStateResponse =
  KeysAndValues :: "(string \<times> bytes) list"
  HasMore :: bool
  ID :: string

record PutStateInfo =
  psi_Key :: string
  psi_Value :: bytes

record ChaincodeSpec =
  spec_ChaincodeID :: "ChaincodeID option"
  spec_CtorMsg :: bytes

subsection \<open>The handler\<close>

record transactionContext =
  transactionSecContext :: "Transaction option"
  rangeQueryIteratorMap :: "(string \<times> RangeScanIterator) list"

datatype State =
    createdstate | establishedstate | initstate | readystate
  | transactionstate | busyinitstate | busyxactstate | endstate

record Handler =
  FSM_current :: State
  h_ChaincodeID :: "ChaincodeID option"
  deployTXSecContext :: "Transaction option"
  registered :: bool
  readyNotify :: bool
  txCtxs :: "(string \<rightharpoonup> transactionContext) option"
  uuidMap :: "(string \<rightharpoonup> bool) option"
  isTransaction :: "(string \<rightharpoonup> bool) option"

text \<open>
  What the collaborators answer. \<open>env_secHelper\<close> is \<^verbatim>\<open>chaincodeSupport.getSecHelper()\<close>,
  \<open>env_GetLedger\<close> the error of \<^verbatim>\<open>ledger.GetLedger()\<close> (none when the ledger is there),
  \<open>env_Send\<close> the error of \<^verbatim>\<open>ChatStream.Send\<close>, the \<open>Unmarshal\<close> and \<open>Marshal\<close> fields
  \<^verbatim>\<open>proto.Unmarshal\<close> and \<^verbatim>\<open>proto.Marshal\<close> at each message type, and
  \<open>env_GenerateUUID\<close> the identifier \<^verbatim>\<open>util.GenerateUUID()\<close> hands out.
\<close>

record Env =
  env_secHelper :: "SecHelper option"
  env_GetLedger :: "error option"
  env_GetState :: "string \<Rightarrow> string \<Rightarrow> bool \<Rightarrow> error + bytes"
  env_SetState :: "string \<Rightarrow> string \<Rightarrow> bytes \<Rightarrow> error option"
  env_DeleteState :: "string \<Rightarrow> string \<Rightarrow> error option"
  env_GetStateRangeScanIterator :: "string \<Rightarrow> string \<Rightarrow> string \<Rightarrow> bool \<Rightarrow> error + RangeScanIterator"
  env_Send :: "ChaincodeMessage \<Rightarrow> error option"
  env_GenerateUUID :: string
  env_registerHandler :: "Handler \<Rightarrow> error + Handler"
  Unmarshal_ChaincodeID :: "bytes \<Rightarrow> error + ChaincodeID"
  Unmarshal_RangeQueryState :: "bytes \<Rightarrow> error + RangeQueryState"
  Unmarshal_RangeQueryStateNext :: "bytes \<Rightarrow> error + string"
  Unmarshal_RangeQueryStateClose :: "bytes \<Rightarrow> error + string"
  Unmarshal_PutStateInfo :: "bytes \<Rightarrow> error + PutStateInfo"
  Unmarshal_ChaincodeSpec :: "bytes \<Rightarrow> error + ChaincodeSpec"
  Marshal_RangeQueryStateResponse :: "RangeQueryStateResponse \<Rightarrow> error + bytes"
  env_NewChaincodeExecute :: "ChaincodeSpec \<Rightarrow> string \<Rightarrow> Transaction_Type \<Rightarrow> Transaction option"
  env_LaunchChaincode :: "Transaction option \<Rightarrow> error + bytes"
  env_createTransactionMessage :: "string \<Rightarrow> bytes \<Rightarrow> ChaincodeMessage option"
  env_createQueryMessage :: "string \<Rightarrow> bytes \<Rightarrow> ChaincodeMessage option"
  env_Execute :: "string \<Rightarrow> ChaincodeMessage option \<Rightarrow> ChaincodeMessage option \<times> error option"

subsection \<open>Tables of the handler\<close>

definition getTxContext :: "Handler \<Rightarrow> string \<Rightarrow> transactionContext option" where
  "getTxContext h uuid = (case txCtxs h of None \<Rightarrow> None | Some m \<Rightarrow> m uuid)"

definition getRangeQueryIterator :: "transactionContext \<Rightarrow> string \<Rightarrow> RangeScanIterator option" where
  "getRangeQueryIterator txContext iterID = map_of (rangeQueryIteratorMap txContext) iterID"

definition putRangeQueryIterator ::
  "transactionContext \<Rightarrow> string \<Rightarrow> RangeScanIterator \<Rightarrow> transactionContext" where
  "putRangeQueryIterator txContext iterID rangeScanIterator =
     txContext\<lparr>rangeQueryIteratorMap :=
       AList.update iterID rangeScanIterator (rangeQueryIteratorMap txContext)\<rparr>"

definition deleteRangeQueryIterator :: "transactionContext \<Rightarrow> string \<Rightarrow> transactionContext" where
  "deleteRangeQueryIterator txContext iterID =
     txContext\<lparr>rangeQueryIteratorMap := AList.delete iterID (rangeQueryIteratorMap txContext)\<rparr>"

text \<open>
  The handler holds a transaction context by pointer; the model writes a changed
  context back under its UUID. Writing into a nil map does not occur: a context that
  was looked up came out of a map.
\<close>

definition storeTxContext :: "Handler \<Rightarrow> string \<Rightarrow> transactionContext \<Rightarrow> Handler" where
  "storeTxContext h uuid txContext =
     (case txCtxs h of None \<Rightarrow> h | Some m \<Rightarrow> h\<lparr>txCtxs := Some (m(uuid \<mapsto> txContext))\<rparr>)"

definition createUUIDEntry :: "Handler \<Rightarrow> string \<Rightarrow> bool \<times> Handler" where
  "createUUIDEntry h uuid =
     (case uuidMap h of
        None \<Rightarrow> (False, h)
      | Some m \<Rightarrow>
          if m uuid = Some True then (False, h)
          else (True, h\<lparr>uuidMap := Some (m(uuid \<mapsto> True))\<rparr>))"

definition deleteUUIDEntry :: "Handler \<Rightarrow> string \<Rightarrow> Handler" where
  "deleteUUIDEntry h uuid =
     (case uuidMap h of None \<Rightarrow> h | Some m \<Rightarrow> h\<lparr>uuidMap := Some (m(uuid := None))\<rparr>)"

definition markIsTransaction :: "Handler \<Rightarrow> string \<Rightarrow> bool \<Rightarrow> Handler" where
  "markIsTransaction h uuid isTrans =
     (case isTransaction h of None \<Rightarrow> h
      | Some m \<Rightarrow> h\<lparr>isTransaction := Some (m(uuid \<mapsto> isTrans))\<rparr>)"

definition getIsTransaction :: "Handler \<Rightarrow> string \<Rightarrow> bool" where
  "getIsTransaction h uuid =
     (case isTransaction h of None \<Rightarrow> False
      | Some m \<Rightarrow> (case m uuid of None \<Rightarrow> False | Some b \<Rightarrow> b))"

definition deleteIsTransaction :: "Handler \<Rightarrow> string \<Rightarrow> Handler" where
  "deleteIsTransaction h uuid =
     (case isTransaction h of None \<Rightarrow> h
      | Some m \<Rightarrow> h\<lparr>isTransaction := Some (m(uuid := None))\<rparr>)"

subsection \<open>The crypto mediator\<close>

definition shortuuid :: "string \<Rightarrow> string" where
  "shortuuid uuid = (if length uuid < 8 then uuid else take 8 uuid)"

definition encryptOrDecrypt :: "Env \<Rightarrow> Handler \<Rightarrow> bool \<Rightarrow> string \<Rightarrow> bytes \<Rightarrow> error + bytes" where
  "encryptOrDecrypt env h encrypt uuid payload =
     (case env_secHelper env of
        None \<Rightarrow> Inr payload
      | Some secHelper \<Rightarrow>
          (case getTxContext h uuid of
             None \<Rightarrow> Inl (ErrorString (''['' @ shortuuid uuid @ '']No context for uuid '' @ uuid))
           | Some txctx \<Rightarrow>
               (case transactionSecContext txctx of
                  None \<Rightarrow> Inl (ErrorString (''['' @ shortuuid uuid
                                  @ '']transaction context is nil for uuid '' @ uuid))
                | Some tx \<Rightarrow>
                    (case (if tx_Type tx = CHAINCODE_NEW then
                             (case GetStateEncryptor secHelper (deployTXSecContext h) (deployTXSecContext h) of
                                Inl err \<Rightarrow> Inl (ErrorString
                                  (''error getting crypto encryptor for deploy tx :'' @ Error err))
                              | Inr enc \<Rightarrow> Inr enc)
                           else if tx_Type tx = CHAINCODE_EXECUTE \<or> tx_Type tx = CHAINCODE_QUERY then
                             (case GetStateEncryptor secHelper (deployTXSecContext h) (Some tx) of
                                Inl err \<Rightarrow> Inl (ErrorString
                                  (''error getting crypto encryptor '' @ Error err))
                              | Inr enc \<Rightarrow> Inr enc)
                           else Inl (ErrorString (''invalid transaction type ''
                                  @ Transaction_Type_String (tx_Type tx)))) of
                       Inl err \<Rightarrow> Inl err
                     | Inr None \<Rightarrow> Inl (ErrorString
                         (''secure context returns nil encryptor for tx '' @ uuid))
                     | Inr (Some enc) \<Rightarrow>
                         (if encrypt then Encrypt enc payload else Decrypt enc payload)))))"

definition decrypt :: "Env \<Rightarrow> Handler \<Rightarrow> string \<Rightarrow> bytes \<Rightarrow> error + bytes" where
  "decrypt env h uuid payload = encryptOrDecrypt env h False uuid payload"

definition encrypt :: "Env \<Rightarrow> Handler \<Rightarrow> string \<Rightarrow> bytes \<Rightarrow> error + bytes" where
  "encrypt env h uuid payload = encryptOrDecrypt env h True uuid payload"

subsection \<open>Effects and outcomes\<close>

text \<open>
  An argument of an FSM event as a callback's type assertion
  \<^verbatim>\<open>e.Args[0].(*pb.ChaincodeMessage)\<close> sees it: a message, a nil message pointer
  (the assertion succeeds, the pointer is nil), or a value of another type.
\<close>

datatype event_arg = ArgMessage ChaincodeMessage | ArgNilMessage | ArgOther

text \<open>The goroutines the handler starts; each body is a function below.\<close>

datatype task =
    handleGetState_go ChaincodeMessage
  | handleRangeQueryState_go "ChaincodeMessage option"
  | handleRangeQueryStateNext_go "ChaincodeMessage option"
  | handleRangeQueryStateClose_go "ChaincodeMessage option"
  | enterBusyState_go "event_arg list"
  | handleQueryChaincode_go ChaincodeMessage

text \<open>
  The calls the handler makes on its collaborators, in the order it makes them:
  \<open>Send\<close> is \<^verbatim>\<open>ChatStream.Send\<close> (always under \<^verbatim>\<open>serialSend\<close>), \<open>ResponseNotify\<close> a
  send on a context's \<^verbatim>\<open>responseNotifier\<close>, \<open>NextState\<close> a send on
  \<^verbatim>\<open>handler.nextState\<close>, \<open>StartupNotify\<close> a send on \<^verbatim>\<open>readyNotify\<close>, \<open>IterClose\<close>
  the \<^verbatim>\<open>Close\<close> of the iterator registered under that id. Blocking on a channel
  is not modelled.
\<close>

datatype effect =
    Send ChaincodeMessage
  | ResponseNotify string ChaincodeMessage
  | NextState ChaincodeMessage bool
  | StartupNotify bool
  | IterClose string
  | Ledger_GetState string string bool
  | Ledger_SetState string string bytes
  | Ledger_DeleteState string string
  | Ledger_GetStateRangeScanIterator string string string bool
  | Support_LaunchChaincode "Transaction option"
  | Support_Execute string "ChaincodeMessage option"
  | Support_registerHandler
  | Support_deregisterHandler
  | Go task

text \<open>
  A Go function either returns or panics (nil dereference, index out of range).
  Both carry the effects made so far.
\<close>

datatype 'a outcome = Panicked "effect list" | Returned 'a "effect list"

definition serialSend :: "Env \<Rightarrow> ChaincodeMessage \<Rightarrow> error option" where
  "serialSend env msg =
     (case env_Send env msg of
        Some err \<Rightarrow> Some (ErrorString
          (''Error sending '' @ Type_String (msg_Type msg) @ '': '' @ Error err))
      | None \<Rightarrow> None)"

definition deregister :: "Handler \<Rightarrow> effect list" where
  "deregister h = (if registered h then [Support_deregisterHandler] else [])"

definition notifyDuringStartup :: "Handler \<Rightarrow> bool \<Rightarrow> effect list" where
  "notifyDuringStartup h val = (if readyNotify h then [StartupNotify val] else [])"

definition notify :: "Handler \<Rightarrow> ChaincodeMessage \<Rightarrow> effect list" where
  "notify h msg =
     (case getTxContext h (msg_Uuid msg) of
        None \<Rightarrow> []
      | Some tctx \<Rightarrow>
          ResponseNotify (msg_Uuid msg) msg
            # map (\<lambda>(iterID, v). IterClose iterID) (rangeQueryIteratorMap tctx))"

subsection \<open>Read actions\<close>

text \<open>
  Each read action is the body of the goroutine its \<^verbatim>\<open>handle...\<close> function starts,
  run in one piece. \<open>deferred_serialSend\<close> is the deferred function of a body that
  returns: release the in-flight guard, then send \<^verbatim>\<open>serialSendMsg\<close>. When the body
  panics before \<^verbatim>\<open>serialSendMsg\<close> is set, the deferred function panics in turn
  (it reads \<^verbatim>\<open>serialSendMsg.Uuid\<close>) and sends nothing.
\<close>

definition deferred_serialSend ::
  "Handler \<Rightarrow> string \<Rightarrow> effect list \<Rightarrow> ChaincodeMessage \<Rightarrow> Handler outcome" where
  "deferred_serialSend h uuid effs serialSendMsg =
     Returned (deleteUUIDEntry h uuid) (effs @ [Send serialSendMsg])"

definition handleGetState :: "Env \<Rightarrow> Handler \<Rightarrow> ChaincodeMessage \<Rightarrow> Handler outcome" where
  "handleGetState env h msg =
     (case createUUIDEntry h (msg_Uuid msg) of
        (False, _) \<Rightarrow> Returned h []
      | (True, h1) \<Rightarrow>
          (let key = msg_Payload msg in
           case env_GetLedger env of
             Some ledgerErr \<Rightarrow>
               deferred_serialSend h1 (msg_Uuid msg) []
                 \<lparr>msg_Type = ERROR, msg_Payload = Error ledgerErr, msg_Uuid = msg_Uuid msg\<rparr>
           | None \<Rightarrow>
               (case h_ChaincodeID h1 of
                  None \<Rightarrow> Panicked []
                | Some cid \<Rightarrow>
                    (let chaincodeID = cid_Name cid;
                         readCommittedState = (\<not> getIsTransaction h1 (msg_Uuid msg));
                         effs = [Ledger_GetState chaincodeID key readCommittedState]
                     in case env_GetState env chaincodeID key readCommittedState of
                          Inl err \<Rightarrow>
                            deferred_serialSend h1 (msg_Uuid msg) effs
                              \<lparr>msg_Type = ERROR, msg_Payload = Error err, msg_Uuid = msg_Uuid msg\<rparr>
                        | Inr res \<Rightarrow>
                            (case decrypt env h1 (msg_Uuid msg) res of
                               Inr res' \<Rightarrow>
                                 deferred_serialSend h1 (msg_Uuid msg) effs
                                   \<lparr>msg_Type = RESPONSE, msg_Payload = res', msg_Uuid = msg_Uuid msg\<rparr>
                             | Inl err \<Rightarrow>
                                 deferred_serialSend h1 (msg_Uuid msg) effs
                                   \<lparr>msg_Type = ERROR, msg_Payload = Error err,
                                    msg_Uuid = msg_Uuid msg\<rparr>)))))"

definition maxRangeQueryStateLimit :: nat where
  "maxRangeQueryStateLimit = 100"

text \<open>
  The loop \<^verbatim>\<open>for ; hasNext && i < maxRangeQueryStateLimit; i++\<close> of both range
  actions: read the pair under the cursor, decrypt its value, append, advance. It
  stops with \<open>Inl\<close> at the first value that does not decrypt.
\<close>

function drain ::
  "(bytes \<Rightarrow> error + bytes) \<Rightarrow> nat \<Rightarrow> bool \<Rightarrow> RangeScanIterator \<Rightarrow> (string \<times> bytes) list
     \<Rightarrow> error + (bool \<times> RangeScanIterator \<times> (string \<times> bytes) list)" where
  "drain dec i hasNext rangeIter keysAndValues =
     (if hasNext \<and> i < maxRangeQueryStateLimit then
        (case GetKeyValue rangeIter of
           (key, val) \<Rightarrow>
             (case dec val of
                Inl err \<Rightarrow> Inl err
              | Inr decryptedValue \<Rightarrow>
                  (case Next rangeIter of
                     (hasNext', rangeIter') \<Rightarrow>
                       drain dec (Suc i) hasNext' rangeIter'
                         (keysAndValues @ [(key, decryptedValue)]))))
      else Inr (hasNext, rangeIter, keysAndValues))"
  by pat_completeness auto
termination
  by (relation "measure (\<lambda>(dec, i, hasNext, rangeIter, keysAndValues). maxRangeQueryStateLimit - i)") auto

declare drain.simps [simp del]

text \<open>
  What follows the loop in both range actions: close and drop an exhausted iterator,
  marshal the response, send it. \<open>unmarshalErr\<close> is the variable of that name, which
  the branch for a failed decryption reads: \<^verbatim>\<open>[]byte(unmarshalErr.Error())\<close>. Calling
  \<^verbatim>\<open>Error\<close> on a nil error panics.
\<close>

definition range_reply ::
  "Env \<Rightarrow> Handler \<Rightarrow> ChaincodeMessage \<Rightarrow> effect list \<Rightarrow> transactionContext \<Rightarrow> string
     \<Rightarrow> error option \<Rightarrow> error + (bool \<times> RangeScanIterator \<times> (string \<times> bytes) list)
     \<Rightarrow> Handler outcome" where
  "range_reply env h msg effs txContext iterID unmarshalErr drained =
     (case drained of
        Inl err \<Rightarrow>
          (case unmarshalErr of
             None \<Rightarrow> Panicked effs
           | Some ue \<Rightarrow>
               deferred_serialSend
                 (storeTxContext h (msg_Uuid msg) (deleteRangeQueryIterator txContext iterID))
                 (msg_Uuid msg) (effs @ [IterClose iterID])
                 \<lparr>msg_Type = ERROR, msg_Payload = Error ue, msg_Uuid = msg_Uuid msg\<rparr>)
      | Inr (hasNext, rangeIter, keysAndValues) \<Rightarrow>
          (let txContext1 =
                 (if \<not> hasNext then deleteRangeQueryIterator txContext iterID
                  else putRangeQueryIterator txContext iterID rangeIter);
               effs1 = (if \<not> hasNext then effs @ [IterClose iterID] else effs);
               payload = \<lparr>KeysAndValues = keysAndValues, HasMore = hasNext, ID = iterID\<rparr>
           in case Marshal_RangeQueryStateResponse env payload of
                Inl err \<Rightarrow>
                  deferred_serialSend
                    (storeTxContext h (msg_Uuid msg) (deleteRangeQueryIterator txContext1 iterID))
                    (msg_Uuid msg) (effs1 @ [IterClose iterID])
                    \<lparr>msg_Type = ERROR, msg_Payload = Error err, msg_Uuid = msg_Uuid msg\<rparr>
              | Inr payloadBytes \<Rightarrow>
                  deferred_serialSend (storeTxContext h (msg_Uuid msg) txContext1)
                    (msg_Uuid msg) effs1
                    \<lparr>msg_Type = RESPONSE, msg_Payload = payloadBytes, msg_Uuid = msg_Uuid msg\<rparr>))"

definition handleRangeQueryState :: "Env \<Rightarrow> Handler \<Rightarrow> ChaincodeMessage \<Rightarrow> Handler outcome" where
  "handleRangeQueryState env h msg =
     (case createUUIDEntry h (msg_Uuid msg) of
        (False, _) \<Rightarrow> Returned h []
      | (True, h1) \<Rightarrow>
          (case Unmarshal_RangeQueryState env (msg_Payload msg) of
             Inl unmarshalErr \<Rightarrow>
               deferred_serialSend h1 (msg_Uuid msg) []
                 \<lparr>msg_Type = ERROR, msg_Payload = Error unmarshalErr, msg_Uuid = msg_Uuid msg\<rparr>
           | Inr rangeQueryState \<Rightarrow>
               (case env_GetLedger env of
                  Some ledgerErr \<Rightarrow>
                    deferred_serialSend h1 (msg_Uuid msg) []
                      \<lparr>msg_Type = ERROR, msg_Payload = Error ledgerErr, msg_Uuid = msg_Uuid msg\<rparr>
                | None \<Rightarrow>
                    (case h_ChaincodeID h1 of
                       None \<Rightarrow> Panicked []
                     | Some cid \<Rightarrow>
                         (let chaincodeID = cid_Name cid;
                              readCommittedState = (\<not> getIsTransaction h1 (msg_Uuid msg));
                              effs = [Ledger_GetStateRangeScanIterator chaincodeID
                                        (rqs_StartKey rangeQueryState) (rqs_EndKey rangeQueryState)
                                        readCommittedState]
                          in case env_GetStateRangeScanIterator env chaincodeID
                                    (rqs_StartKey rangeQueryState) (rqs_EndKey rangeQueryState)
                                    readCommittedState of
                               Inl err \<Rightarrow>
                                 deferred_serialSend h1 (msg_Uuid msg) effs
                                   \<lparr>msg_Type = ERROR, msg_Payload = Error err,
                                    msg_Uuid = msg_Uuid msg\<rparr>
                             | Inr rangeIter \<Rightarrow>
                                 (let iterID = env_GenerateUUID env in
                                  case getTxContext h1 (msg_Uuid msg) of
                                    None \<Rightarrow> Panicked effs
                                  | Some txContext0 \<Rightarrow>
                                      (let txContext = putRangeQueryIterator txContext0 iterID rangeIter;
                                           h2 = storeTxContext h1 (msg_Uuid msg) txContext
                                       in case Next rangeIter of
                                            (hasNext, rangeIter1) \<Rightarrow>
                                              range_reply env h2 msg effs txContext iterID None
                                                (drain (decrypt env h2 (msg_Uuid msg)) 0 hasNext
                                                   rangeIter1 []))))))))"

definition handleRangeQueryStateNext :: "Env \<Rightarrow> Handler \<Rightarrow> ChaincodeMessage \<Rightarrow> Handler outcome" where
  "handleRangeQueryStateNext env h msg =
     (case createUUIDEntry h (msg_Uuid msg) of
        (False, _) \<Rightarrow> Returned h []
      | (True, h1) \<Rightarrow>
          (case Unmarshal_RangeQueryStateNext env (msg_Payload msg) of
             Inl unmarshalErr \<Rightarrow>
               deferred_serialSend h1 (msg_Uuid msg) []
                 \<lparr>msg_Type = ERROR, msg_Payload = Error unmarshalErr, msg_Uuid = msg_Uuid msg\<rparr>
           | Inr nextID \<Rightarrow>
               (case getTxContext h1 (msg_Uuid msg) of
                  None \<Rightarrow> Panicked []
                | Some txContext \<Rightarrow>
                    (case getRangeQueryIterator txContext nextID of
                       None \<Rightarrow>
                         deferred_serialSend h1 (msg_Uuid msg) []
                           \<lparr>msg_Type = ERROR, msg_Payload = ''Range query iterator not found'',
                            msg_Uuid = msg_Uuid msg\<rparr>
                     | Some rangeIter \<Rightarrow>
                         range_reply env h1 msg [] txContext nextID None
                           (drain (decrypt env h1 (msg_Uuid msg)) 0 True rangeIter [])))))"

definition handleRangeQueryStateClose :: "Env \<Rightarrow> Handler \<Rightarrow> ChaincodeMessage \<Rightarrow> Handler outcome" where
  "handleRangeQueryStateClose env h msg =
     (case createUUIDEntry h (msg_Uuid msg) of
        (False, _) \<Rightarrow> Returned h []
      | (True, h1) \<Rightarrow>
          (case Unmarshal_RangeQueryStateClose env (msg_Payload msg) of
             Inl unmarshalErr \<Rightarrow>
               deferred_serialSend h1 (msg_Uuid msg) []
                 \<lparr>msg_Type = ERROR, msg_Payload = Error unmarshalErr, msg_Uuid = msg_Uuid msg\<rparr>
           | Inr closeID \<Rightarrow>
               (case getTxContext h1 (msg_Uuid msg) of
                  None \<Rightarrow> Panicked []
                | Some txContext \<Rightarrow>
                    (let closing = (getRangeQueryIterator txContext closeID \<noteq> None);
                         h2 = (if closing
                               then storeTxContext h1 (msg_Uuid msg)
                                      (deleteRangeQueryIterator txContext closeID)
                               else h1);
                         effs = (if closing then [IterClose closeID] else []);
                         payload = \<lparr>KeysAndValues = [], HasMore = False, ID = closeID\<rparr>
                     in case Marshal_RangeQueryStateResponse env payload of
                          Inl err \<Rightarrow>
                            deferred_serialSend h2 (msg_Uuid msg) effs
                              \<lparr>msg_Type = ERROR, msg_Payload = Error err, msg_Uuid = msg_Uuid msg\<rparr>
                        | Inr payloadBytes \<Rightarrow>
                            deferred_serialSend h2 (msg_Uuid msg) effs
                              \<lparr>msg_Type = RESPONSE, msg_Payload = payloadBytes,
                               msg_Uuid = msg_Uuid msg\<rparr>))))"

subsection \<open>Write and nested-execute actions\<close>

text \<open>
  The body of the goroutine of \<^verbatim>\<open>enterBusyState\<close>. Its deferred function releases
  the guard and posts \<^verbatim>\<open>triggerNextStateMsg\<close> on \<^verbatim>\<open>nextState\<close> with \<^verbatim>\<open>send = true\<close>.
  \<open>busy_result\<close> is the tail of the body from \<^verbatim>\<open>if err != nil\<close> on.
\<close>

definition deferred_triggerNextState ::
  "Handler \<Rightarrow> string \<Rightarrow> effect list \<Rightarrow> ChaincodeMessage \<Rightarrow> Handler outcome" where
  "deferred_triggerNextState h uuid effs triggerNextStateMsg =
     Returned (deleteUUIDEntry h uuid) (effs @ [NextState triggerNextStateMsg True])"

definition busy_result ::
  "Handler \<Rightarrow> ChaincodeMessage \<Rightarrow> effect list \<Rightarrow> error option \<Rightarrow> bytes \<Rightarrow> Handler outcome" where
  "busy_result h msg effs err res =
     (case err of
        Some e \<Rightarrow>
          deferred_triggerNextState h (msg_Uuid msg) effs
            \<lparr>msg_Type = ERROR, msg_Payload = Error e, msg_Uuid = msg_Uuid msg\<rparr>
      | None \<Rightarrow>
          deferred_triggerNextState h (msg_Uuid msg) effs
            \<lparr>msg_Type = RESPONSE, msg_Payload = res, msg_Uuid = msg_Uuid msg\<rparr>)"

definition enterBusyState_body :: "Env \<Rightarrow> Handler \<Rightarrow> event_arg list \<Rightarrow> Handler outcome" where
  "enterBusyState_body env h args =
     (case args of
        ArgMessage msg # _ \<Rightarrow>
          (if \<not> getIsTransaction h (msg_Uuid msg) then
             Returned h
               [NextState \<lparr>msg_Type = ERROR,
                           msg_Payload = ''Cannot handle '' @ Type_String (msg_Type msg)
                                           @ '' in query context'',
                           msg_Uuid = msg_Uuid msg\<rparr> True]
           else
             (case createUUIDEntry h (msg_Uuid msg) of
                (False, _) \<Rightarrow> Returned h []
              | (True, h1) \<Rightarrow>
                  (case env_GetLedger env of
                     Some ledgerErr \<Rightarrow>
                       deferred_triggerNextState h1 (msg_Uuid msg) []
                         \<lparr>msg_Type = ERROR, msg_Payload = Error ledgerErr, msg_Uuid = msg_Uuid msg\<rparr>
                   | None \<Rightarrow>
                       (case h_ChaincodeID h1 of
                          None \<Rightarrow> Panicked []
                        | Some cid \<Rightarrow>
                            (let chaincodeID = cid_Name cid in
                             if msg_Type msg = PUT_STATE then
                               (case Unmarshal_PutStateInfo env (msg_Payload msg) of
                                  Inl unmarshalErr \<Rightarrow>
                                    deferred_triggerNextState h1 (msg_Uuid msg) []
                                      \<lparr>msg_Type = ERROR, msg_Payload = Error unmarshalErr,
                                       msg_Uuid = msg_Uuid msg\<rparr>
                                | Inr putStateInfo \<Rightarrow>
                                    (case encrypt env h1 (msg_Uuid msg) (psi_Value putStateInfo) of
                                       Inl err \<Rightarrow> busy_result h1 msg [] (Some err) []
                                     | Inr pVal \<Rightarrow>
                                         busy_result h1 msg
                                           [Ledger_SetState chaincodeID (psi_Key putStateInfo) pVal]
                                           (env_SetState env chaincodeID (psi_Key putStateInfo) pVal)
                                           []))
                             else if msg_Type msg = DEL_STATE then
                               busy_result h1 msg [Ledger_DeleteState chaincodeID (msg_Payload msg)]
                                 (env_DeleteState env chaincodeID (msg_Payload msg)) []
                             else if msg_Type msg = INVOKE_CHAINCODE then
                               (case Unmarshal_ChaincodeSpec env (msg_Payload msg) of
                                  Inl unmarshalErr \<Rightarrow>
                                    deferred_triggerNextState h1 (msg_Uuid msg) []
                                      \<lparr>msg_Type = ERROR, msg_Payload = Error unmarshalErr,
                                       msg_Uuid = msg_Uuid msg\<rparr>
                                | Inr chaincodeSpec \<Rightarrow>
                                    (case spec_ChaincodeID chaincodeSpec of
                                       None \<Rightarrow> Panicked []
                                     | Some newCid \<Rightarrow>
                                         (let newChaincodeID = cid_Name newCid;
                                              transaction = env_NewChaincodeExecute env chaincodeSpec
                                                              (msg_Uuid msg) CHAINCODE_EXECUTE;
                                              effs = [Support_LaunchChaincode transaction]
                                          in case env_LaunchChaincode env transaction of
                                               Inl launchErr \<Rightarrow>
                                                 deferred_triggerNextState h1 (msg_Uuid msg) effs
                                                   \<lparr>msg_Type = ERROR, msg_Payload = Error launchErr,
                                                    msg_Uuid = msg_Uuid msg\<rparr>
                                             | Inr chaincodeInput \<Rightarrow>
                                                 (case transaction of
                                                    None \<Rightarrow> Panicked effs
                                                  | Some t \<Rightarrow>
                                                      (let ccMsg = env_createTransactionMessage env
                                                                     (tx_Uuid t) chaincodeInput;
                                                           effs1 = effs @ [Support_Execute newChaincodeID ccMsg]
                                                       in case env_Execute env newChaincodeID ccMsg of
                                                            (None, execErr) \<Rightarrow> Panicked effs1
                                                          | (Some response, execErr) \<Rightarrow>
                                                              busy_result h1 msg effs1 execErr
                                                                (msg_Payload response))))))
                             else busy_result h1 msg [] None [])))))
      | _ \<Rightarrow> Panicked [])"

subsection \<open>The state machine\<close>

fun State_String :: "State \<Rightarrow> string" where
  "State_String createdstate = ''created''"
| "State_String establishedstate = ''established''"
| "State_String initstate = ''init''"
| "State_String readystate = ''ready''"
| "State_String transactionstate = ''transaction''"
| "State_String busyinitstate = ''busyinit''"
| "State_String busyxactstate = ''busyxact''"
| "State_String endstate = ''end''"

text \<open>
  The \<^verbatim>\<open>fsm.Events\<close> of \<^verbatim>\<open>newChaincodeSupportHandler\<close>, in the order of the source.
  An event is named by its message type (\<^verbatim>\<open>Type.String()\<close> is one-to-one).
\<close>

definition fsm_Events :: "(ChaincodeMessage_Type \<times> State list \<times> State) list" where
  "fsm_Events =
    [(REGISTER, [createdstate], establishedstate),
     (INIT, [establishedstate], initstate),
     (READY, [establishedstate], readystate),
     (TRANSACTION, [readystate], transactionstate),
     (PUT_STATE, [transactionstate], busyxactstate),
     (DEL_STATE, [transactionstate], busyxactstate),
     (INVOKE_CHAINCODE, [transactionstate], busyxactstate),
     (PUT_STATE, [initstate], busyinitstate),
     (DEL_STATE, [initstate], busyinitstate),
     (INVOKE_CHAINCODE, [initstate], busyinitstate),
     (COMPLETED, [initstate, readystate, transactionstate], readystate),
     (GET_STATE, [readystate], readystate),
     (GET_STATE, [initstate], initstate),
     (GET_STATE, [busyinitstate], busyinitstate),
     (GET_STATE, [transactionstate], transactionstate),
     (GET_STATE, [busyxactstate], busyxactstate),
     (RANGE_QUERY_STATE, [readystate], readystate),
     (RANGE_QUERY_STATE, [initstate], initstate),
     (RANGE_QUERY_STATE, [busyinitstate], busyinitstate),
     (RANGE_QUERY_STATE, [transactionstate], transactionstate),
     (RANGE_QUERY_STATE, [busyxactstate], busyxactstate),
     (RANGE_QUERY_STATE_NEXT, [readystate], readystate),
     (RANGE_QUERY_STATE_NEXT, [initstate], initstate),
     (RANGE_QUERY_STATE_NEXT, [busyinitstate], busyinitstate),
     (RANGE_QUERY_STATE_NEXT, [transactionstate], transactionstate),
     (RANGE_QUERY_STATE_NEXT, [busyxactstate], busyxactstate),
     (RANGE_QUERY_STATE_CLOSE, [readystate], readystate),
     (RANGE_QUERY_STATE_CLOSE, [initstate], initstate),
     (RANGE_QUERY_STATE_CLOSE, [busyinitstate], busyinitstate),
     (RANGE_QUERY_STATE_CLOSE, [transactionstate], transactionstate),
     (RANGE_QUERY_STATE_CLOSE, [busyxactstate], busyxactstate),
     (ERROR, [initstate], endstate),
     (ERROR, [transactionstate], readystate),
     (ERROR, [busyinitstate], initstate),
     (ERROR, [busyxactstate], transactionstate),
     (RESPONSE, [busyinitstate], initstate),
     (RESPONSE, [busyxactstate], transactionstate)]"

text \<open>
  The FSM library (github.com/looplab/fsm) is a dependency, not a file of the
  repository. \<^verbatim>\<open>NewFSM\<close> stores \<^verbatim>\<open>transitions[{event, src}] = dst\<close> for every source
  state of every event, in order. \<^verbatim>\<open>Cannot(event)\<close> holds when the table has no entry
  for the event in the current state (the handler starts no asynchronous transition,
  so none is ever pending).
\<close>

definition transitions :: "ChaincodeMessage_Type \<times> State \<rightharpoonup> State" where
  "transitions =
     fold (\<lambda>(name, srcs, dst) m. fold (\<lambda>src m'. m'((name, src) \<mapsto> dst)) srcs m)
       fsm_Events Map.empty"

definition Cannot :: "Handler \<Rightarrow> ChaincodeMessage_Type \<Rightarrow> bool" where
  "Cannot h event = (transitions (event, FSM_current h) = None)"

record Event =
  e_Event :: ChaincodeMessage_Type
  e_Src :: State
  e_Dst :: State
  e_Err :: "error option"
  e_Args :: "event_arg list"
  e_canceled :: bool

definition Cancel :: "error \<Rightarrow> Event \<Rightarrow> Event" where
  "Cancel err e = e\<lparr>e_canceled := True, e_Err := Some err\<rparr>"

definition unexpected_message_type :: error where
  "unexpected_message_type = ErrorString ''Received unexpected message type''"

subsection \<open>Callbacks\<close>

text \<open>
  Each callback takes the handler and the event and gives both back. The \<^verbatim>\<open>state\<close>
  argument of the source is used in log lines only and is left out. A callback
  indexes \<^verbatim>\<open>e.Args[0]\<close> (a panic on no arguments) and asserts its type.
\<close>

definition beforeRegisterEvent :: "Env \<Rightarrow> Handler \<Rightarrow> Event \<Rightarrow> (Handler \<times> Event) outcome" where
  "beforeRegisterEvent env h e =
     (case e_Args e of
        [] \<Rightarrow> Panicked []
      | ArgOther # _ \<Rightarrow> Returned (h, Cancel unexpected_message_type e) []
      | ArgNilMessage # _ \<Rightarrow> Panicked []
      | ArgMessage msg # _ \<Rightarrow>
          (case Unmarshal_ChaincodeID env (msg_Payload msg) of
             Inl err \<Rightarrow>
               Returned (h, Cancel (ErrorString
                 (''Error in received REGISTER, could NOT unmarshal registration info: ''
                    @ Error err)) e) []
           | Inr chaincodeID \<Rightarrow>
               (let h1 = h\<lparr>h_ChaincodeID := Some chaincodeID\<rparr> in
                case env_registerHandler env h1 of
                  Inl err \<Rightarrow>
                    Returned (h1, Cancel err e) (Support_registerHandler # notifyDuringStartup h1 False)
                | Inr h2 \<Rightarrow>
                    (case serialSend env \<lparr>msg_Type = REGISTERED, msg_Payload = [], msg_Uuid = []\<rparr> of
                       Some err \<Rightarrow>
                         Returned (h2, Cancel (ErrorString (''Error sending REGISTERED: '' @ Error err)) e)
                           ([Support_registerHandler,
                             Send \<lparr>msg_Type = REGISTERED, msg_Payload = [], msg_Uuid = []\<rparr>]
                            @ notifyDuringStartup h2 False)
                     | None \<Rightarrow>
                         Returned (h2, e)
                           [Support_registerHandler,
                            Send \<lparr>msg_Type = REGISTERED, msg_Payload = [], msg_Uuid = []\<rparr>]))))"

definition beforeCompletedEvent :: "Env \<Rightarrow> Handler \<Rightarrow> Event \<Rightarrow> (Handler \<times> Event) outcome" where
  "beforeCompletedEvent env h e =
     (case e_Args e of
        [] \<Rightarrow> Panicked []
      | ArgOther # _ \<Rightarrow> Returned (h, Cancel unexpected_message_type e) []
      | ArgNilMessage # _ \<Rightarrow> Panicked []
      | ArgMessage msg # _ \<Rightarrow> Returned (h, e) [])"

definition beforeInitState :: "Env \<Rightarrow> Handler \<Rightarrow> Event \<Rightarrow> (Handler \<times> Event) outcome" where
  "beforeInitState env h e = Returned (h, e) (notifyDuringStartup h True)"

text \<open>
  The four \<^verbatim>\<open>after...\<close> callbacks of the read actions: assert, log the UUID
  (\<^verbatim>\<open>afterGetState\<close> only), start the goroutine.
\<close>

definition afterGetState :: "Env \<Rightarrow> Handler \<Rightarrow> Event \<Rightarrow> (Handler \<times> Event) outcome" where
  "afterGetState env h e =
     (case e_Args e of
        [] \<Rightarrow> Panicked []
      | ArgOther # _ \<Rightarrow> Returned (h, Cancel unexpected_message_type e) []
      | ArgNilMessage # _ \<Rightarrow> Panicked []
      | ArgMessage msg # _ \<Rightarrow> Returned (h, e) [Go (handleGetState_go msg)])"

text \<open>
  The three range callbacks do not read the message: with a nil message pointer
  they start their goroutine, which then panics at \<^verbatim>\<open>msg.Uuid\<close> (see \<open>run_task\<close>).
\<close>

definition afterRangeQueryState :: "Env \<Rightarrow> Handler \<Rightarrow> Event \<Rightarrow> (Handler \<times> Event) outcome" where
  "afterRangeQueryState env h e =
     (case e_Args e of
        [] \<Rightarrow> Panicked []
      | ArgOther # _ \<Rightarrow> Returned (h, Cancel unexpected_message_type e) []
      | ArgNilMessage # _ \<Rightarrow> Returned (h, e) [Go (handleRangeQueryState_go None)]
      | ArgMessage msg # _ \<Rightarrow> Returned (h, e) [Go (handleRangeQueryState_go (Some msg))])"

definition afterRangeQueryStateNext :: "Env \<Rightarrow> Handler \<Rightarrow> Event \<Rightarrow> (Handler \<times> Event) outcome" where
  "afterRangeQueryStateNext env h e =
     (case e_Args e of
        [] \<Rightarrow> Panicked []
      | ArgOther # _ \<Rightarrow> Returned (h, Cancel unexpected_message_type e) []
      | ArgNilMessage # _ \<Rightarrow> Returned (h, e) [Go (handleRangeQueryStateNext_go None)]
      | ArgMessage msg # _ \<Rightarrow> Returned (h, e) [Go (handleRangeQueryStateNext_go (Some msg))])"

definition afterRangeQueryStateClose :: "Env \<Rightarrow> Handler \<Rightarrow> Event \<Rightarrow> (Handler \<times> Event) outcome" where
  "afterRangeQueryStateClose env h e =
     (case e_Args e of
        [] \<Rightarrow> Panicked []
      | ArgOther # _ \<Rightarrow> Returned (h, Cancel unexpected_message_type e) []
      | ArgNilMessage # _ \<Rightarrow> Returned (h, e) [Go (handleRangeQueryStateClose_go None)]
      | ArgMessage msg # _ \<Rightarrow> Returned (h, e) [Go (handleRangeQueryStateClose_go (Some msg))])"

text \<open>
  \<^verbatim>\<open>afterPutState\<close>, \<^verbatim>\<open>afterDelState\<close> and \<^verbatim>\<open>afterInvokeChaincode\<close> have one body:
  assert, and cancel when the assertion fails; the message itself is not read.
\<close>

definition afterWriteRequest :: "Env \<Rightarrow> Handler \<Rightarrow> Event \<Rightarrow> (Handler \<times> Event) outcome" where
  "afterWriteRequest env h e =
     (case e_Args e of
        [] \<Rightarrow> Panicked []
      | ArgOther # _ \<Rightarrow> Returned (h, Cancel unexpected_message_type e) []
      | _ # _ \<Rightarrow> Returned (h, e) [])"

definition enterBusyState :: "Env \<Rightarrow> Handler \<Rightarrow> Event \<Rightarrow> (Handler \<times> Event) outcome" where
  "enterBusyState env h e = Returned (h, e) [Go (enterBusyState_go (e_Args e))]"

definition enterEstablishedState :: "Env \<Rightarrow> Handler \<Rightarrow> Event \<Rightarrow> (Handler \<times> Event) outcome" where
  "enterEstablishedState env h e = Returned (h, e) (notifyDuringStartup h True)"

definition enterInitState :: "Env \<Rightarrow> Handler \<Rightarrow> Event \<Rightarrow> (Handler \<times> Event) outcome" where
  "enterInitState env h e =
     (case e_Args e of
        [] \<Rightarrow> Panicked []
      | ArgOther # _ \<Rightarrow> Returned (h, Cancel unexpected_message_type e) []
      | ArgNilMessage # _ \<Rightarrow> Panicked []
      | ArgMessage ccMsg # _ \<Rightarrow>
          (if msg_Type ccMsg = INIT then
             (let h1 = markIsTransaction h (msg_Uuid ccMsg) True in
              case serialSend env ccMsg of
                Some err \<Rightarrow>
                  Returned (h1, e)
                    (Send ccMsg
                       # notify h1 \<lparr>msg_Type = ERROR,
                                    msg_Payload = ''Error sending INIT: '' @ Error err,
                                    msg_Uuid = msg_Uuid ccMsg\<rparr>)
              | None \<Rightarrow> Returned (h1, e) [Send ccMsg])
           else Returned (h, e) []))"

text \<open>
  \<^verbatim>\<open>enterReadyState\<close> and \<^verbatim>\<open>enterEndState\<close> read \<^verbatim>\<open>msg.Uuid\<close> on the line after the
  assertion and before the test of \<^verbatim>\<open>ok\<close>: when the assertion fails \<^verbatim>\<open>msg\<close> is nil
  and the read panics. The deferred \<^verbatim>\<open>deregister\<close> of \<^verbatim>\<open>enterEndState\<close> runs on every
  way out, after the index expression succeeded or not.
\<close>

definition enterReadyState :: "Env \<Rightarrow> Handler \<Rightarrow> Event \<Rightarrow> (Handler \<times> Event) outcome" where
  "enterReadyState env h e =
     (case e_Args e of
        [] \<Rightarrow> Panicked []
      | ArgMessage msg # _ \<Rightarrow>
          (let h1 = deleteIsTransaction h (msg_Uuid msg) in Returned (h1, e) (notify h1 msg))
      | _ # _ \<Rightarrow> Panicked [])"

definition enterEndState :: "Env \<Rightarrow> Handler \<Rightarrow> Event \<Rightarrow> (Handler \<times> Event) outcome" where
  "enterEndState env h e =
     (case e_Args e of
        [] \<Rightarrow> Panicked (deregister h)
      | ArgMessage msg # _ \<Rightarrow>
          (let h1 = deleteIsTransaction h (msg_Uuid msg) in
           Returned (h1, Cancel (ErrorString ''Entered end state'') e)
             (notify h1 msg @ deregister h1))
      | _ # _ \<Rightarrow> Panicked (deregister h))"

text \<open>The \<^verbatim>\<open>fsm.Callbacks\<close> of \<^verbatim>\<open>newChaincodeSupportHandler\<close>, by kind.\<close>

fun before_callback ::
  "ChaincodeMessage_Type \<Rightarrow> (Env \<Rightarrow> Handler \<Rightarrow> Event \<Rightarrow> (Handler \<times> Event) outcome) option" where
  "before_callback REGISTER = Some beforeRegisterEvent"
| "before_callback COMPLETED = Some beforeCompletedEvent"
| "before_callback INIT = Some beforeInitState"
| "before_callback _ = None"

fun after_callback ::
  "ChaincodeMessage_Type \<Rightarrow> (Env \<Rightarrow> Handler \<Rightarrow> Event \<Rightarrow> (Handler \<times> Event) outcome) option" where
  "after_callback GET_STATE = Some afterGetState"
| "after_callback RANGE_QUERY_STATE = Some afterRangeQueryState"
| "after_callback RANGE_QUERY_STATE_NEXT = Some afterRangeQueryStateNext"
| "after_callback RANGE_QUERY_STATE_CLOSE = Some afterRangeQueryStateClose"
| "after_callback PUT_STATE = Some afterWriteRequest"
| "after_callback DEL_STATE = Some afterWriteRequest"
| "after_callback INVOKE_CHAINCODE = Some afterWriteRequest"
| "after_callback _ = None"

fun enter_callback ::
  "State \<Rightarrow> (Env \<Rightarrow> Handler \<Rightarrow> Event \<Rightarrow> (Handler \<times> Event) outcome) option" where
  "enter_callback establishedstate = Some enterEstablishedState"
| "enter_callback initstate = Some enterInitState"
| "enter_callback readystate = Some enterReadyState"
| "enter_callback busyinitstate = Some enterBusyState"
| "enter_callback busyxactstate = Some enterBusyState"
| "enter_callback endstate = Some enterEndState"
| "enter_callback _ = None"

subsection \<open>Events\<close>

text \<open>
  \<^verbatim>\<open>FSM.Event\<close> of the library, for the callbacks registered here (by event name for
  before and after, by state name for enter; no leave callback is registered). In
  the library's order: look the transition up; run the before callback, and return
  a \<^verbatim>\<open>CanceledError\<close> holding the event's \<^verbatim>\<open>Err\<close> when it cancelled; when the
  destination is the current state run the after callback and return a
  \<^verbatim>\<open>NoTransitionError\<close> holding \<^verbatim>\<open>Err\<close>; otherwise set the current state, run the enter
  callback of the new state and the after callback, and return the event's \<^verbatim>\<open>Err\<close>
  as it is. A cancel inside an enter or after callback does not undo the transition.
\<close>

definition bind_outcome :: "'a outcome \<Rightarrow> ('a \<Rightarrow> 'b outcome) \<Rightarrow> 'b outcome" where
  "bind_outcome r f =
     (case r of
        Panicked effs \<Rightarrow> Panicked effs
      | Returned x effs \<Rightarrow>
          (case f x of
             Panicked effs' \<Rightarrow> Panicked (effs @ effs')
           | Returned y effs' \<Rightarrow> Returned y (effs @ effs')))"

definition run_callback ::
  "(Env \<Rightarrow> Handler \<Rightarrow> Event \<Rightarrow> (Handler \<times> Event) outcome) option
     \<Rightarrow> Env \<Rightarrow> Handler \<Rightarrow> Event \<Rightarrow> (Handler \<times> Event) outcome" where
  "run_callback cb env h e = (case cb of None \<Rightarrow> Returned (h, e) [] | Some f \<Rightarrow> f env h e)"

definition FSM_Event ::
  "Env \<Rightarrow> Handler \<Rightarrow> ChaincodeMessage_Type \<Rightarrow> event_arg list \<Rightarrow> (Handler \<times> error option) outcome" where
  "FSM_Event env h event args =
     (case transitions (event, FSM_current h) of
        None \<Rightarrow>
          Returned (h, Some (if event \<in> set (map fst fsm_Events)
                             then InvalidEventError (Type_String event) (State_String (FSM_current h))
                             else UnknownEventError (Type_String event))) []
      | Some dst \<Rightarrow>
          (let e = \<lparr>e_Event = event, e_Src = FSM_current h, e_Dst = dst, e_Err = None,
                    e_Args = args, e_canceled = False\<rparr>
           in bind_outcome (run_callback (before_callback event) env h e) (\<lambda>(h1, e1).
                if e_canceled e1 then Returned (h1, Some (CanceledError (e_Err e1))) []
                else if FSM_current h1 = dst then
                  bind_outcome (run_callback (after_callback event) env h1 e1) (\<lambda>(h2, e2).
                    Returned (h2, Some (NoTransitionError (e_Err e2))) [])
                else
                  bind_outcome
                    (run_callback (enter_callback dst) env (h1\<lparr>FSM_current := dst\<rparr>) e1)
                    (\<lambda>(h2, e2).
                       bind_outcome (run_callback (after_callback event) env h2 e2) (\<lambda>(h3, e3).
                         Returned (h3, e_Err e3) [])))))"

definition filterError :: "error option \<Rightarrow> error option" where
  "filterError errFromFSMEvent =
     (case errFromFSMEvent of
        None \<Rightarrow> None
      | Some (NoTransitionError inner) \<Rightarrow> (if inner \<noteq> None then errFromFSMEvent else None)
      | Some (CanceledError inner) \<Rightarrow> (if inner \<noteq> None then errFromFSMEvent else None)
      | Some _ \<Rightarrow> None)"

text \<open>\<^verbatim>\<open>%d\<close> of a length.\<close>

fun Itoa :: "nat \<Rightarrow> string" where
  "Itoa n = (if n < 10 then [char_of (48 + n)] else Itoa (n div 10) @ [char_of (48 + n mod 10)])"

declare Itoa.simps [simp del]

definition is_write_request :: "ChaincodeMessage_Type \<Rightarrow> bool" where
  "is_write_request t = (t = PUT_STATE \<or> t = DEL_STATE \<or> t = INVOKE_CHAINCODE)"

text \<open>
  \<^verbatim>\<open>HandleMessage\<close> gives back the handler, the message (the \<^verbatim>\<open>QUERY_COMPLETED\<close> branch
  writes into it, and the pump may send it on) and the error it returns.
\<close>

definition HandleMessage ::
  "Env \<Rightarrow> Handler \<Rightarrow> ChaincodeMessage \<Rightarrow> (Handler \<times> ChaincodeMessage \<times> error option) outcome" where
  "HandleMessage env h msg =
     (if msg_Type msg = QUERY_COMPLETED then
        (let h1 = deleteIsTransaction h (msg_Uuid msg);
             msg1 = (case encrypt env h1 (msg_Uuid msg) (msg_Payload msg) of
                       Inr payload \<Rightarrow> msg\<lparr>msg_Payload := payload\<rparr>
                     | Inl err \<Rightarrow>
                         msg\<lparr>msg_Payload := ''Failed to encrypt query result '' @ Error err,
                             msg_Type := QUERY_ERROR\<rparr>)
         in Returned (h1, msg1, None) (notify h1 msg1))
      else if msg_Type msg = QUERY_ERROR then
        (let h1 = deleteIsTransaction h (msg_Uuid msg)
         in Returned (h1, msg, None) (notify h1 msg))
      else if msg_Type msg = INVOKE_QUERY then
        Returned (h, msg, None) [Go (handleQueryChaincode_go msg)]
      else if Cannot h (msg_Type msg) then
        (if is_write_request (msg_Type msg) \<and> \<not> getIsTransaction h (msg_Uuid msg) then
           Returned
             (h, msg, Some (ErrorString
                (''Cannot handle '' @ Type_String (msg_Type msg) @ '' in query context'')))
             [Send \<lparr>msg_Type = ERROR,
                    msg_Payload = ''['' @ msg_Uuid msg @ '']Cannot handle ''
                                    @ Type_String (msg_Type msg) @ '' in query context'',
                    msg_Uuid = msg_Uuid msg\<rparr>]
         else
           Returned
             (h, msg, Some (ErrorString
                (''['' @ msg_Uuid msg @ '']Chaincode handler validator FSM cannot handle message (''
                   @ Type_String (msg_Type msg) @ '') with payload size (''
                   @ Itoa (length (msg_Payload msg)) @ '') while in state: ''
                   @ State_String (FSM_current h))))
             [])
      else
        bind_outcome (FSM_Event env h (msg_Type msg) [ArgMessage msg]) (\<lambda>(h1, eventErr).
          Returned (h1, msg, filterError eventErr) []))"

subsection \<open>The stream pump\<close>

text \<open>
  One turn of the loop of \<^verbatim>\<open>processStream\<close>: the \<^verbatim>\<open>select\<close> took either what
  \<^verbatim>\<open>Recv\<close> returned or an entry of \<^verbatim>\<open>nextState\<close>. The turn ends the loop with the
  error \<^verbatim>\<open>processStream\<close> returns (the deferred \<^verbatim>\<open>deregister\<close> runs then) or
  goes on.
\<close>

datatype recv_result = RecvEOF | RecvError error | RecvMessage "ChaincodeMessage option"

datatype pump_input = FromStream recv_result | FromNextState "ChaincodeMessage option" bool

datatype pump_result = Continue Handler | Exit error

definition select_input :: "pump_input \<Rightarrow> error + ChaincodeMessage \<times> bool" where
  "select_input inp =
     (case inp of
        FromStream RecvEOF \<Rightarrow> Inl (ErrorString ''EOF'')
      | FromStream (RecvError err) \<Rightarrow> Inl err
      | FromStream (RecvMessage None) \<Rightarrow>
          Inl (ErrorString ''Received nil message, ending chaincode support stream'')
      | FromStream (RecvMessage (Some m)) \<Rightarrow> Inr (m, False)
      | FromNextState None sendToCC \<Rightarrow>
          Inl (ErrorString ''Next state nil message, ending chaincode support stream'')
      | FromNextState (Some m) sendToCC \<Rightarrow> Inr (m, sendToCC))"

definition processStream_step :: "Env \<Rightarrow> Handler \<Rightarrow> pump_input \<Rightarrow> pump_result outcome" where
  "processStream_step env h inp =
     (case select_input inp of
        Inl err \<Rightarrow> Returned (Exit err) (deregister h)
      | Inr (msg, sendToCC) \<Rightarrow>
          (case HandleMessage env h msg of
             Panicked effs \<Rightarrow> Panicked (effs @ deregister h)
           | Returned (h1, msg1, Some err) effs \<Rightarrow>
               Returned (Exit (ErrorString (''Error handling message, ending stream: '' @ Error err)))
                 (effs @ deregister h1)
           | Returned (h1, msg1, None) effs \<Rightarrow>
               (if sendToCC then
                  (case serialSend env msg1 of
                     Some err \<Rightarrow>
                       Returned (Exit (ErrorString (''['' @ shortuuid (msg_Uuid msg1)
                                   @ '']serial sending received error '' @ Error err)))
                         (effs @ [Send msg1] @ deregister h1)
                   | None \<Rightarrow> Returned (Continue h1) (effs @ [Send msg1]))
                else Returned (Continue h1) effs)))"

text \<open>
  A goroutine's body by task. A range action started with a nil message panics at
  its first line. \<^verbatim>\<open>handleQueryChaincode\<close> is not modelled beyond its start.
\<close>

fun run_task :: "Env \<Rightarrow> Handler \<Rightarrow> task \<Rightarrow> Handler outcome option" where
  "run_task env h (handleGetState_go msg) = Some (handleGetState env h msg)"
| "run_task env h (handleRangeQueryState_go None) = Some (Panicked [])"
| "run_task env h (handleRangeQueryState_go (Some msg)) = Some (handleRangeQueryState env h msg)"
| "run_task env h (handleRangeQueryStateNext_go None) = Some (Panicked [])"
| "run_task env h (handleRangeQueryStateNext_go (Some msg)) = Some (handleRangeQueryStateNext env h msg)"
| "run_task env h (handleRangeQueryStateClose_go None) = Some (Panicked [])"
| "run_task env h (handleRangeQueryStateClose_go (Some msg)) = Some (handleRangeQueryStateClose env h msg)"
| "run_task env h (enterBusyState_go args) = Some (enterBusyState_body env h args)"
| "run_task env h (handleQueryChaincode_go msg) = None"

subsection \<open>The transition table in the words of the specification\<close>

text \<open>
  Section 4.2 of the specification, line by line: the state a message type leads to
  from a state, if the pair is in the table.
\<close>

definition spec_table :: "State \<Rightarrow> ChaincodeMessage_Type \<Rightarrow> State option" where
  "spec_table s t =
     (if t = REGISTER then (if s = createdstate then Some establishedstate else None)
      else if t = INIT then (if s = establishedstate then Some initstate else None)
      else if t = READY then (if s = establishedstate then Some readystate else None)
      else if t = TRANSACTION then (if s = readystate then Some transactionstate else None)
      else if t = PUT_STATE \<or> t = DEL_STATE \<or> t = INVOKE_CHAINCODE then
        (if s = transactionstate then Some busyxactstate
         else if s = initstate then Some busyinitstate else None)
      else if t = RESPONSE then
        (if s = busyinitstate then Some initstate
         else if s = busyxactstate then Some transactionstate else None)
      else if t = ERROR then
        (if s = initstate then Some endstate
         else if s = busyinitstate then Some initstate
         else if s = transactionstate then Some readystate
         else if s = busyxactstate then Some transactionstate else None)
      else if t = COMPLETED then
        (if s = initstate \<or> s = readystate \<or> s = transactionstate then Some readystate else None)
      else if t = GET_STATE \<or> t = RANGE_QUERY_STATE \<or> t = RANGE_QUERY_STATE_NEXT
              \<or> t = RANGE_QUERY_STATE_CLOSE then
        (if s = readystate \<or> s = initstate \<or> s = busyinitstate \<or> s = transactionstate
            \<or> s = busyxactstate then Some s else None)
      else None)"

subsection \<open>Notions used in the statements\<close>

text \<open>Whether the first argument of an event is a (non-nil) chaincode message.\<close>

definition first_arg_is_message :: "event_arg list \<Rightarrow> bool" where
  "first_arg_is_message args = (case args of ArgMessage msg # rest \<Rightarrow> True | _ \<Rightarrow> False)"

text \<open>
  The ERROR message \<^verbatim>\<open>enterBusyState\<close> builds for a request in query context, and
  the state a busy state was entered from.
\<close>

definition query_context_error :: "ChaincodeMessage \<Rightarrow> ChaincodeMessage" where
  "query_context_error msg =
     \<lparr>msg_Type = ERROR,
      msg_Payload = ''Cannot handle '' @ Type_String (msg_Type msg) @ '' in query context'',
      msg_Uuid = msg_Uuid msg\<rparr>"

definition parent_state :: "State \<Rightarrow> State" where
  "parent_state s = (if s = busyinitstate then initstate else transactionstate)"

text \<open>
  The iterator standing on the first of the pairs still to be delivered; with none
  left it is exhausted.
\<close>

definition seek :: "(string \<times> bytes) list \<Rightarrow> RangeScanIterator" where
  "seek pairs = (case pairs of
                   [] \<Rightarrow> \<lparr>it_cursor = None, it_ahead = []\<rparr>
                 | kv # rest \<Rightarrow> \<lparr>it_cursor = Some kv, it_ahead = rest\<rparr>)"

text \<open>
  A worker that follows a scan up: \<open>n\<close> further \<^verbatim>\<open>RANGE_QUERY_STATE_NEXT\<close> requests,
  each handled after the one before it returned. A panic ends the run.
\<close>

fun next_rounds :: "Env \<Rightarrow> ChaincodeMessage \<Rightarrow> nat \<Rightarrow> Handler outcome \<Rightarrow> Handler outcome" where
  "next_rounds env nextMsg 0 r = r"
| "next_rounds env nextMsg (Suc n) r =
     next_rounds env nextMsg n (bind_outcome r (\<lambda>h. handleRangeQueryStateNext env h nextMsg))"

text \<open>
  The replies of a scan over \<open>pairs\<close> in the words of the specification: while more
  than \<open>K\<close> pairs remain, a frame of \<open>K\<close> pairs with \<open>HasMore\<close>; then one last frame
  with the pairs that remain and \<open>HasMore = False\<close>.
\<close>

function scan_replies :: "string \<Rightarrow> (string \<times> bytes) list \<Rightarrow> RangeQueryStateResponse list" where
  "scan_replies iterID pairs =
     (if length pairs \<le> maxRangeQueryStateLimit then
        [\<lparr>KeysAndValues = pairs, HasMore = False, ID = iterID\<rparr>]
      else
        \<lparr>KeysAndValues = take maxRangeQueryStateLimit pairs, HasMore = True, ID = iterID\<rparr>
          # scan_replies iterID (drop maxRangeQueryStateLimit pairs))"
  by pat_completeness auto
termination
  by (relation "measure (\<lambda>(iterID, pairs). length pairs)")
     (auto simp: maxRangeQueryStateLimit_def)

declare scan_replies.simps [simp del]

definition reply_frame ::
  "(RangeQueryStateResponse \<Rightarrow> bytes) \<Rightarrow> string \<Rightarrow> RangeQueryStateResponse \<Rightarrow> effect" where
  "reply_frame marshal uuid r =
     Send \<lparr>msg_Type = RESPONSE, msg_Payload = marshal r, msg_Uuid = uuid\<rparr>"

text \<open>
  The effects of one request of a scan with \<open>pairs\<close> pending (\<open>frame\<close>) and of all the
  requests of the scan (\<open>scan_frames\<close>): the last request closes the iterator before
  it replies.
\<close>

definition frame ::
  "(RangeQueryStateResponse \<Rightarrow> bytes) \<Rightarrow> string \<Rightarrow> string \<Rightarrow> (string \<times> bytes) list \<Rightarrow> effect list" where
  "frame marshal uuid iterID pairs =
     (if length pairs \<le> maxRangeQueryStateLimit then
        [IterClose iterID,
         Send \<lparr>msg_Type = RESPONSE,
               msg_Payload = marshal \<lparr>KeysAndValues = pairs, HasMore = False, ID = iterID\<rparr>,
               msg_Uuid = uuid\<rparr>]
      else
        [Send \<lparr>msg_Type = RESPONSE,
              msg_Payload = marshal \<lparr>KeysAndValues = take maxRangeQueryStateLimit pairs,
                                      HasMore = True, ID = iterID\<rparr>,
              msg_Uuid = uuid\<rparr>])"

function scan_frames ::
  "(RangeQueryStateResponse \<Rightarrow> bytes) \<Rightarrow> string \<Rightarrow> string \<Rightarrow> (string \<times> bytes) list \<Rightarrow> effect list" where
  "scan_frames marshal uuid iterID pairs =
     (if length pairs \<le> maxRangeQueryStateLimit then
        [IterClose iterID,
         Send \<lparr>msg_Type = RESPONSE,
               msg_Payload = marshal \<lparr>KeysAndValues = pairs, HasMore = False, ID = iterID\<rparr>,
               msg_Uuid = uuid\<rparr>]
      else
        Send \<lparr>msg_Type = RESPONSE,
              msg_Payload = marshal \<lparr>KeysAndValues = take maxRangeQueryStateLimit pairs,
                                      HasMore = True, ID = iterID\<rparr>,
              msg_Uuid = uuid\<rparr>
          # scan_frames marshal uuid iterID (drop maxRangeQueryStateLimit pairs))"
  by pat_completeness auto
termination
  by (relation "measure (\<lambda>(marshal, uuid, iterID, pairs). length pairs)")
     (auto simp: maxRangeQueryStateLimit_def)

declare scan_frames.simps [simp del]

text \<open>
  The handler between two requests of a scan that \<open>h0\<close> started: the guard of the UUID
  is free, the security contexts are those of \<open>h0\<close>, and the registry holds the
  iterator standing on the pending pairs, or no iterator when none is pending.
\<close>

definition scanning ::
  "Handler \<Rightarrow> string \<Rightarrow> string \<Rightarrow> (string \<times> bytes) list \<Rightarrow> Handler \<Rightarrow> bool" where
  "scanning h0 uuid iterID pending h =
     (fst (createUUIDEntry h uuid)
      \<and> deployTXSecContext h = deployTXSecContext h0
      \<and> map_option transactionSecContext (getTxContext h uuid)
            = map_option transactionSecContext (getTxContext h0 uuid)
      \<and> (\<exists>txc. getTxContext h uuid = Some txc
             \<and> getRangeQueryIterator txc iterID
                  = (if pending = [] then None else Some (seek pending))))"

subsection \<open>Sample collaborators and handlers\<close>

text \<open>
  Concrete inputs for the instances below: an environment without a security helper
  whose ledger holds three pairs, a security helper whose encryptor prefixes the
  UUID of the transaction it was derived for, and a handler with five transaction
  contexts.
\<close>

definition sample_encryptor :: "Transaction option \<Rightarrow> StateEncryptor" where
  "sample_encryptor tx =
     (let tag = (case tx of None \<Rightarrow> ''nil'' | Some t \<Rightarrow> tx_Uuid t) @ '':''
      in \<lparr>Encrypt = (\<lambda>p. Inr (tag @ p)),
          Decrypt = (\<lambda>p. if take (length tag) p = tag then Inr (drop (length tag) p)
                          else Inl (ErrorString ''cannot decrypt''))\<rparr>)"

definition sample_secHelper :: SecHelper where
  "sample_secHelper = \<lparr>GetStateEncryptor = (\<lambda>deployTx tx. Inr (Some (sample_encryptor tx)))\<rparr>"

definition sample_marshal :: "RangeQueryStateResponse \<Rightarrow> bytes" where
  "sample_marshal r =
     concat (map (\<lambda>(k, v). k @ ''='' @ v @ '';'') (KeysAndValues r))
       @ (if HasMore r then ''more:'' else ''done:'') @ ID r"

definition sample_env :: Env where
  "sample_env =
     \<lparr>env_secHelper = None,
      env_GetLedger = None,
      env_GetState = (\<lambda>chaincodeID key committed. Inr (if committed then ''100'' else ''90'')),
      env_SetState = (\<lambda>chaincodeID key val. None),
      env_DeleteState = (\<lambda>chaincodeID key. None),
      env_GetStateRangeScanIterator = (\<lambda>chaincodeID startKey endKey committed.
         Inr \<lparr>it_cursor = None, it_ahead = [(''a'', ''1''), (''b'', ''2''), (''c'', ''3'')]\<rparr>),
      env_Send = (\<lambda>msg. None),
      env_GenerateUUID = ''it1'',
      env_registerHandler = (\<lambda>h. Inr (h\<lparr>registered := True\<rparr>)),
      Unmarshal_ChaincodeID = (\<lambda>b. Inr \<lparr>cid_Path = [], cid_Name = b\<rparr>),
      Unmarshal_RangeQueryState = (\<lambda>b. Inr \<lparr>rqs_StartKey = b, rqs_EndKey = b\<rparr>),
      Unmarshal_RangeQueryStateNext = Inr,
      Unmarshal_RangeQueryStateClose = Inr,
      Unmarshal_PutStateInfo = (\<lambda>b. Inr \<lparr>psi_Key = take 1 b, psi_Value = drop 1 b\<rparr>),
      Unmarshal_ChaincodeSpec = (\<lambda>b. Inr \<lparr>spec_ChaincodeID = Some \<lparr>cid_Path = [], cid_Name = b\<rparr>,
                                             spec_CtorMsg = []\<rparr>),
      Marshal_RangeQueryStateResponse = (\<lambda>r. Inr (sample_marshal r)),
      env_NewChaincodeExecute = (\<lambda>spec uuid typ.
         Some \<lparr>tx_Type = typ, tx_ChaincodeID = [], tx_Payload = [], tx_Uuid = uuid\<rparr>),
      env_LaunchChaincode = (\<lambda>tx. Inr []),
      env_createTransactionMessage = (\<lambda>uuid input.
         Some \<lparr>msg_Type = TRANSACTION, msg_Payload = input, msg_Uuid = uuid\<rparr>),
      env_createQueryMessage = (\<lambda>uuid input.
         Some \<lparr>msg_Type = QUERY, msg_Payload = input, msg_Uuid = uuid\<rparr>),
      env_Execute = (\<lambda>chaincodeID msg.
         (Some \<lparr>msg_Type = COMPLETED, msg_Payload = ''ok'', msg_Uuid = []\<rparr>, None))\<rparr>"

definition sample_tx :: "Transaction_Type \<Rightarrow> string \<Rightarrow> Transaction" where
  "sample_tx typ uuid = \<lparr>tx_Type = typ, tx_ChaincodeID = ''cc1'', tx_Payload = [], tx_Uuid = uuid\<rparr>"

definition sample_handler :: Handler where
  "sample_handler =
     \<lparr>FSM_current = readystate,
      h_ChaincodeID = Some \<lparr>cid_Path = [], cid_Name = ''cc1''\<rparr>,
      deployTXSecContext = Some (sample_tx CHAINCODE_NEW ''dep''),
      registered = True,
      readyNotify = False,
      txCtxs = Some [''tx1'' \<mapsto> \<lparr>transactionSecContext = Some (sample_tx CHAINCODE_EXECUTE ''tx1''),
                                  rangeQueryIteratorMap = []\<rparr>,
                     ''q1'' \<mapsto> \<lparr>transactionSecContext = Some (sample_tx CHAINCODE_QUERY ''q1''),
                                 rangeQueryIteratorMap = []\<rparr>,
                     ''dep'' \<mapsto> \<lparr>transactionSecContext = Some (sample_tx CHAINCODE_NEW ''dep''),
                                  rangeQueryIteratorMap = []\<rparr>,
                     ''odd'' \<mapsto> \<lparr>transactionSecContext = Some (sample_tx (Transaction_OTHER ''CHAINCODE_TERMINATE'') ''odd''),
                                  rangeQueryIteratorMap = []\<rparr>,
                     ''bare'' \<mapsto> \<lparr>transactionSecContext = None, rangeQueryIteratorMap = []\<rparr>],
      uuidMap = Some Map.empty,
      isTransaction = Some [''tx1'' \<mapsto> True, ''q1'' \<mapsto> False, ''dep'' \<mapsto> True]\<rparr>"


definition effects_of :: "'a outcome \<Rightarrow> effect list" where
  "effects_of r = (case r of Panicked effs \<Rightarrow> effs | Returned x effs \<Rightarrow> effs)"

definition secure_env :: Env where
  "secure_env = sample_env\<lparr>env_secHelper := Some sample_secHelper\<rparr>"

definition sample_event :: "event_arg list \<Rightarrow> Event" where
  "sample_event args =
     \<lparr>e_Event = COMPLETED, e_Src = transactionstate, e_Dst = readystate, e_Err = None,
      e_Args = args, e_canceled = False\<rparr>"

definition big_entries :: "(string \<times> bytes) list" where
  "big_entries = map (\<lambda>i. (''k'' @ Itoa i, ''v'')) [0..<250]"

definition big_env :: Env where
  "big_env = sample_env\<lparr>env_GetStateRangeScanIterator :=
     (\<lambda>chaincodeID startKey endKey committed. Inr \<lparr>it_cursor = None, it_ahead = big_entries\<rparr>)\<rparr>"

definition sample_handler_scanning :: Handler where
  "sample_handler_scanning =
     sample_handler\<lparr>txCtxs := Some [''q1'' \<mapsto>
       \<lparr>transactionSecContext = Some (sample_tx CHAINCODE_QUERY ''q1''),
        rangeQueryIteratorMap =
          [(''it1'', \<lparr>it_cursor = Some (''b'', ''2''), it_ahead = [(''c'', ''3'')]\<rparr>)]\<rparr>]\<rparr>"

section \<open>Properties\<close>

lemma shortuuid_short: "length (shortuuid uuid) \<le> 8"
  by (simp add: shortuuid_def)

subsection \<open>Frame lemmas\<close>

lemma createUUIDEntry_admitted:
  assumes "fst (createUUIDEntry h uuid)"
  obtains m where "uuidMap h = Some m" and "m uuid \<noteq> Some True"
    and "createUUIDEntry h uuid = (True, h\<lparr>uuidMap := Some (m(uuid \<mapsto> True))\<rparr>)"
  using assms by (auto simp: createUUIDEntry_def split: option.splits if_splits)

lemma createUUIDEntry_rejected:
  "\<not> fst (createUUIDEntry h uuid) \<Longrightarrow> createUUIDEntry h uuid = (False, h)"
  by (auto simp: createUUIDEntry_def split: option.splits if_splits)

lemma deleteUUIDEntry_after_create:
  "uuidMap h = Some m \<Longrightarrow>
   deleteUUIDEntry (h\<lparr>uuidMap := Some (m(uuid \<mapsto> True))\<rparr>) uuid = deleteUUIDEntry h uuid"
  by (simp add: deleteUUIDEntry_def)

lemma encryptOrDecrypt_same_context:
  assumes "deployTXSecContext h' = deployTXSecContext h"
    and "map_option transactionSecContext (getTxContext h' uuid)
           = map_option transactionSecContext (getTxContext h uuid)"
  shows "encryptOrDecrypt env h' enc uuid p = encryptOrDecrypt env h enc uuid p"
  using assms
  by (cases "getTxContext h uuid"; cases "getTxContext h' uuid")
     (auto simp: encryptOrDecrypt_def split: option.splits)

lemma decrypt_same_context:
  assumes "deployTXSecContext h' = deployTXSecContext h"
    and "map_option transactionSecContext (getTxContext h' uuid)
           = map_option transactionSecContext (getTxContext h uuid)"
  shows "decrypt env h' uuid = decrypt env h uuid"
  by (rule ext) (simp add: decrypt_def encryptOrDecrypt_same_context [OF assms])

lemma guard_frame [simp]:
  "getIsTransaction (h\<lparr>uuidMap := u\<rparr>) = getIsTransaction h"
  "getTxContext (h\<lparr>uuidMap := u\<rparr>) = getTxContext h"
  by (simp_all add: getIsTransaction_def getTxContext_def fun_eq_iff)

lemma decrypt_guard_frame [simp]:
  "decrypt env (h\<lparr>uuidMap := u\<rparr>) uuid p = decrypt env h uuid p"
  unfolding decrypt_def by (rule encryptOrDecrypt_same_context) simp_all

lemma notify_frame [simp]:
  "notify (deleteIsTransaction h u) = notify h"
  "notify (h\<lparr>FSM_current := s\<rparr>) = notify h"
  "deregister (deleteIsTransaction h u) = deregister h"
  "deregister (h\<lparr>FSM_current := s\<rparr>) = deregister h"
  by (auto simp: notify_def deleteIsTransaction_def getTxContext_def deregister_def fun_eq_iff
        split: option.splits)

lemma getTxContext_store:
  "getTxContext h uuid = Some txc \<Longrightarrow> getTxContext (storeTxContext h uuid txc') uuid = Some txc'"
  by (auto simp: getTxContext_def storeTxContext_def split: option.splits)

lemma store_frame [simp]:
  "deployTXSecContext (storeTxContext h uuid txc) = deployTXSecContext h"
  "uuidMap (storeTxContext h uuid txc) = uuidMap h"
  "deployTXSecContext (deleteUUIDEntry h uuid) = deployTXSecContext h"
  "getTxContext (deleteUUIDEntry h uuid) = getTxContext h"
  by (auto simp: storeTxContext_def deleteUUIDEntry_def getTxContext_def split: option.splits)

lemma registry_simps [simp]:
  "getRangeQueryIterator (putRangeQueryIterator txc iterID it) iterID = Some it"
  "getRangeQueryIterator (deleteRangeQueryIterator txc iterID) iterID = None"
  "transactionSecContext (putRangeQueryIterator txc iterID it) = transactionSecContext txc"
  "transactionSecContext (deleteRangeQueryIterator txc iterID) = transactionSecContext txc"
  by (simp_all add: getRangeQueryIterator_def putRangeQueryIterator_def
        deleteRangeQueryIterator_def update_conv' delete_conv')

lemma guard_released: "fst (createUUIDEntry (deleteUUIDEntry h uuid) uuid) = (uuidMap h \<noteq> None)"
  by (auto simp: createUUIDEntry_def deleteUUIDEntry_def split: option.splits)


subsection \<open>The transition table, evaluated\<close>

lemma transitions_ERROR:
  "transitions (ERROR, initstate) = Some endstate"
  "transitions (ERROR, busyinitstate) = Some initstate"
  "transitions (ERROR, busyxactstate) = Some transactionstate"
  by (simp_all add: transitions_def fsm_Events_def)

lemma transitions_spec_table: "transitions (t, s) = spec_table s t"
  by (cases t; cases s; simp add: transitions_def fsm_Events_def spec_table_def)


subsection \<open>Facts about the samples\<close>

lemma sample_handler_guard: "fst (createUUIDEntry sample_handler uuid)"
  by (simp add: createUUIDEntry_def sample_handler_def)

lemma sample_handler_marks:
  "getIsTransaction sample_handler ''tx1'' = True"
  "getIsTransaction sample_handler ''q1'' = False"
  by (simp_all add: getIsTransaction_def sample_handler_def)

lemma sample_handler_cid:
  "h_ChaincodeID sample_handler = Some \<lparr>cid_Path = [], cid_Name = ''cc1''\<rparr>"
  by (simp add: sample_handler_def)

lemma sample_handler_state: "FSM_current sample_handler = readystate"
  by (simp add: sample_handler_def)

lemma sample_handler_q1:
  "getTxContext sample_handler ''q1'' =
     Some \<lparr>transactionSecContext = Some (sample_tx CHAINCODE_QUERY ''q1''),
           rangeQueryIteratorMap = []\<rparr>"
  by (simp add: getTxContext_def sample_handler_def)

lemma sample_notify:
  "msg_Uuid m = ''q1'' \<Longrightarrow> notify sample_handler m = [ResponseNotify ''q1'' m]"
  by (simp add: notify_def sample_handler_q1)

lemma sample_handler_scanning_q1:
  "getTxContext sample_handler_scanning ''q1'' =
     Some \<lparr>transactionSecContext = Some (sample_tx CHAINCODE_QUERY ''q1''),
           rangeQueryIteratorMap =
             [(''it1'', \<lparr>it_cursor = Some (''b'', ''2''), it_ahead = [(''c'', ''3'')]\<rparr>)]\<rparr>"
  "fst (createUUIDEntry sample_handler_scanning uuid)"
  by (simp_all add: sample_handler_scanning_def getTxContext_def createUUIDEntry_def
        sample_handler_def)

lemma secure_env_sel:
  "env_GetLedger secure_env = None"
  "env_GenerateUUID secure_env = ''it1''"
  "Unmarshal_RangeQueryState secure_env b = Inr \<lparr>rqs_StartKey = b, rqs_EndKey = b\<rparr>"
  "Unmarshal_RangeQueryStateNext secure_env b = Inr b"
  "env_GetStateRangeScanIterator secure_env c s e committed =
     Inr \<lparr>it_cursor = None, it_ahead = [(''a'', ''1''), (''b'', ''2''), (''c'', ''3'')]\<rparr>"
  by (simp_all add: secure_env_def sample_env_def)

lemma length_big_entries: "length big_entries = 250"
  by (simp add: big_entries_def)

lemma big_env_sel:
  "env_secHelper big_env = None"
  "env_GetLedger big_env = None"
  "env_GenerateUUID big_env = ''it1''"
  "Unmarshal_RangeQueryState big_env b = Inr \<lparr>rqs_StartKey = b, rqs_EndKey = b\<rparr>"
  "Unmarshal_RangeQueryStateNext big_env b = Inr b"
  "Marshal_RangeQueryStateResponse big_env r = Inr (sample_marshal r)"
  "env_GetStateRangeScanIterator big_env c s e committed = Inr \<lparr>it_cursor = None, it_ahead = big_entries\<rparr>"
  by (simp_all add: big_env_def sample_env_def)


subsection \<open>The crypto mediator\<close>

text \<open>
  Claim C7. For every call \<open>encryptOrDecrypt env h enc uuid payload\<close>: without a
  security helper the payload comes back unchanged. With one, the call fails when
  the UUID has no transaction context or the context's \<open>transactionSecContext\<close> is nil;
  for the type \<open>CHAINCODE_NEW\<close> (DEPLOY) the result is that of the encryptor the helper
  derives from the deploy context paired with itself; for \<open>CHAINCODE_EXECUTE\<close> and
  \<open>CHAINCODE_QUERY\<close> that of the encryptor derived from the deploy context and the
  transaction's own context (where the helper gives an error or no encryptor the
  call fails); every other type fails with "invalid transaction type" and the
  type's name.
\<close>

theorem encryptOrDecrypt_policy:
  "(env_secHelper env = None \<longrightarrow> encryptOrDecrypt env h enc uuid payload = Inr payload) \<and>
   (env_secHelper env = Some secHelper \<longrightarrow>
      (getTxContext h uuid = None \<longrightarrow> isl (encryptOrDecrypt env h enc uuid payload)) \<and>
      (getTxContext h uuid = Some txctx \<longrightarrow>
         (transactionSecContext txctx = None \<longrightarrow> isl (encryptOrDecrypt env h enc uuid payload)) \<and>
         (transactionSecContext txctx = Some tx \<longrightarrow>
            (tx_Type tx = CHAINCODE_NEW \<longrightarrow>
               (case GetStateEncryptor secHelper (deployTXSecContext h) (deployTXSecContext h) of
                  Inr (Some e) \<Rightarrow>
                    encryptOrDecrypt env h enc uuid payload =
                      (if enc then Encrypt e payload else Decrypt e payload)
                | _ \<Rightarrow> isl (encryptOrDecrypt env h enc uuid payload))) \<and>
            (tx_Type tx = CHAINCODE_EXECUTE \<or> tx_Type tx = CHAINCODE_QUERY \<longrightarrow>
               (case GetStateEncryptor secHelper (deployTXSecContext h) (Some tx) of
                  Inr (Some e) \<Rightarrow>
                    encryptOrDecrypt env h enc uuid payload =
                      (if enc then Encrypt e payload else Decrypt e payload)
                | _ \<Rightarrow> isl (encryptOrDecrypt env h enc uuid payload))) \<and>
            (tx_Type tx \<noteq> CHAINCODE_NEW \<and> tx_Type tx \<noteq> CHAINCODE_EXECUTE
               \<and> tx_Type tx \<noteq> CHAINCODE_QUERY \<longrightarrow>
               encryptOrDecrypt env h enc uuid payload =
                 Inl (ErrorString (''invalid transaction type ''
                        @ Transaction_Type_String (tx_Type tx)))))))"
  by (auto simp: encryptOrDecrypt_def split: option.splits sum.splits)

lemma sample_ctx:
  "getTxContext sample_handler ''tx1'' = Some \<lparr>transactionSecContext = Some (sample_tx CHAINCODE_EXECUTE ''tx1''), rangeQueryIteratorMap = []\<rparr>"
  "getTxContext sample_handler ''dep'' = Some \<lparr>transactionSecContext = Some (sample_tx CHAINCODE_NEW ''dep''), rangeQueryIteratorMap = []\<rparr>"
  "getTxContext sample_handler ''odd'' = Some \<lparr>transactionSecContext = Some (sample_tx (Transaction_OTHER ''CHAINCODE_TERMINATE'') ''odd''), rangeQueryIteratorMap = []\<rparr>"
  "getTxContext sample_handler ''bare'' = Some \<lparr>transactionSecContext = None, rangeQueryIteratorMap = []\<rparr>"
  "getTxContext sample_handler ''nope'' = None"
  by (simp_all add: getTxContext_def sample_handler_def)

lemma sample_handler_deploy:
  "deployTXSecContext sample_handler = Some (sample_tx CHAINCODE_NEW ''dep'')"
  by (simp add: sample_handler_def)

lemma sample_tx_sel: "tx_Type (sample_tx t u) = t" "tx_Uuid (sample_tx t u) = u"
  by (simp_all add: sample_tx_def)

lemma secure_env_helper: "env_secHelper secure_env = Some sample_secHelper"
  by (simp add: secure_env_def)

lemma sample_env_helper: "env_secHelper sample_env = None"
  by (simp add: sample_env_def)

lemmas sample_crypto = sample_ctx sample_handler_deploy sample_tx_sel secure_env_helper
  sample_env_helper sample_secHelper_def sample_encryptor_def Let_def

theorem encryptOrDecrypt_policy_witness:
  "encryptOrDecrypt sample_env sample_handler True ''tx1'' ''abc'' = Inr ''abc''
   \<and> isl (encryptOrDecrypt secure_env sample_handler True ''nope'' ''abc'')
   \<and> isl (encryptOrDecrypt secure_env sample_handler True ''bare'' ''abc'')
   \<and> encryptOrDecrypt secure_env sample_handler True ''dep'' ''abc'' = Inr ''dep:abc''
   \<and> encryptOrDecrypt secure_env sample_handler False ''tx1'' ''tx1:abc'' = Inr ''abc''
   \<and> encryptOrDecrypt secure_env sample_handler True ''odd'' ''abc''
        = Inl (ErrorString ''invalid transaction type CHAINCODE_TERMINATE'')"
proof -
  have plain: "encryptOrDecrypt sample_env sample_handler True ''tx1'' ''abc'' = Inr ''abc''"
    using encryptOrDecrypt_policy [where env = sample_env and h = sample_handler and enc = True
            and uuid = "''tx1''" and payload = "''abc''"]
    by (simp add: sample_crypto)
  have nope: "isl (encryptOrDecrypt secure_env sample_handler True ''nope'' ''abc'')"
    using encryptOrDecrypt_policy [where env = secure_env and secHelper = sample_secHelper
            and h = sample_handler and enc = True and uuid = "''nope''" and payload = "''abc''"]
    by (simp add: sample_crypto)
  have bare: "isl (encryptOrDecrypt secure_env sample_handler True ''bare'' ''abc'')"
    using encryptOrDecrypt_policy [where env = secure_env and secHelper = sample_secHelper
            and h = sample_handler and enc = True and uuid = "''bare''" and payload = "''abc''"
            and txctx = "\<lparr>transactionSecContext = None, rangeQueryIteratorMap = []\<rparr>"]
    by (simp add: sample_crypto)
  have dep: "encryptOrDecrypt secure_env sample_handler True ''dep'' ''abc'' = Inr ''dep:abc''"
    using encryptOrDecrypt_policy [where env = secure_env and secHelper = sample_secHelper
            and h = sample_handler and enc = True and uuid = "''dep''" and payload = "''abc''"
            and tx = "sample_tx CHAINCODE_NEW ''dep''"
            and txctx = "\<lparr>transactionSecContext = Some (sample_tx CHAINCODE_NEW ''dep''),
                          rangeQueryIteratorMap = []\<rparr>"]
    by (simp add: sample_crypto)
  have exec: "encryptOrDecrypt secure_env sample_handler False ''tx1'' ''tx1:abc'' = Inr ''abc''"
    using encryptOrDecrypt_policy [where env = secure_env and secHelper = sample_secHelper
            and h = sample_handler and enc = False and uuid = "''tx1''" and payload = "''tx1:abc''"
            and tx = "sample_tx CHAINCODE_EXECUTE ''tx1''"
            and txctx = "\<lparr>transactionSecContext = Some (sample_tx CHAINCODE_EXECUTE ''tx1''),
                          rangeQueryIteratorMap = []\<rparr>"]
    by (simp add: sample_crypto)
  have odd: "encryptOrDecrypt secure_env sample_handler True ''odd'' ''abc''
               = Inl (ErrorString ''invalid transaction type CHAINCODE_TERMINATE'')"
    using encryptOrDecrypt_policy [where env = secure_env and secHelper = sample_secHelper
            and h = sample_handler and enc = True and uuid = "''odd''" and payload = "''abc''"
            and tx = "sample_tx (Transaction_OTHER ''CHAINCODE_TERMINATE'') ''odd''"
            and txctx = "\<lparr>transactionSecContext =
                            Some (sample_tx (Transaction_OTHER ''CHAINCODE_TERMINATE'') ''odd''),
                          rangeQueryIteratorMap = []\<rparr>"]
    by (simp add: sample_crypto)
  from plain nope bare dep exec odd show ?thesis by simp
qed

subsection \<open>GET_STATE\<close>

text \<open>
  Claim C6. Every \<open>GetState\<close> call that \<open>handleGetState\<close> makes on the ledger carries
  the committed-read flag \<open>\<not> getIsTransaction h uuid\<close>: true exactly when the UUID is
  not marked as a transaction. And the call is made: when the request passes the
  in-flight guard, the ledger is there and the handler has its chaincode id, the
  action calls \<open>GetState\<close> once, with the chaincode's name, the payload as key and
  that flag, and then sends one reply.
\<close>

theorem handleGetState_readCommitted:
  "(Ledger_GetState c k b \<in> set (effects_of (handleGetState env h msg)) \<longrightarrow>
      b = (\<not> getIsTransaction h (msg_Uuid msg))) \<and>
   (fst (createUUIDEntry h (msg_Uuid msg)) \<and> env_GetLedger env = None
      \<and> h_ChaincodeID h = Some cid \<longrightarrow>
      (\<exists>reply. handleGetState env h msg =
         Returned (deleteUUIDEntry h (msg_Uuid msg))
           [Ledger_GetState (cid_Name cid) (msg_Payload msg)
              (\<not> getIsTransaction h (msg_Uuid msg)),
            Send reply]))"
proof (intro conjI impI)
  assume call: "Ledger_GetState c k b \<in> set (effects_of (handleGetState env h msg))"
  show "b = (\<not> getIsTransaction h (msg_Uuid msg))"
  proof (cases "fst (createUUIDEntry h (msg_Uuid msg))")
    case False
    then have "createUUIDEntry h (msg_Uuid msg) = (False, h)"
      by (rule createUUIDEntry_rejected)
    with call show ?thesis
      by (simp add: handleGetState_def effects_of_def)
  next
    case True
    then obtain m where m: "uuidMap h = Some m"
      "createUUIDEntry h (msg_Uuid msg) = (True, h\<lparr>uuidMap := Some (m(msg_Uuid msg \<mapsto> True))\<rparr>)"
      by (auto elim: createUUIDEntry_admitted)
    from call show ?thesis
      by (simp add: handleGetState_def effects_of_def deferred_serialSend_def Let_def m
            split: option.splits sum.splits)
  qed
next
  assume a: "fst (createUUIDEntry h (msg_Uuid msg)) \<and> env_GetLedger env = None
      \<and> h_ChaincodeID h = Some cid"
  then obtain m where m: "uuidMap h = Some m"
    "createUUIDEntry h (msg_Uuid msg) = (True, h\<lparr>uuidMap := Some (m(msg_Uuid msg \<mapsto> True))\<rparr>)"
    by (auto elim: createUUIDEntry_admitted)
  show "\<exists>reply. handleGetState env h msg =
         Returned (deleteUUIDEntry h (msg_Uuid msg))
           [Ledger_GetState (cid_Name cid) (msg_Payload msg)
              (\<not> getIsTransaction h (msg_Uuid msg)),
            Send reply]"
    using a m
    by (simp add: handleGetState_def deferred_serialSend_def Let_def deleteUUIDEntry_after_create
          split: sum.splits)
qed

theorem handleGetState_readCommitted_witness:
  "(\<exists>reply. handleGetState sample_env sample_handler
       \<lparr>msg_Type = GET_STATE, msg_Payload = ''a'', msg_Uuid = ''q1''\<rparr> =
       Returned (deleteUUIDEntry sample_handler ''q1'')
         [Ledger_GetState ''cc1'' ''a'' True, Send reply]) \<and>
   (\<exists>reply. handleGetState sample_env sample_handler
       \<lparr>msg_Type = GET_STATE, msg_Payload = ''a'', msg_Uuid = ''tx1''\<rparr> =
       Returned (deleteUUIDEntry sample_handler ''tx1'')
         [Ledger_GetState ''cc1'' ''a'' False, Send reply])"
  using handleGetState_readCommitted [where env = sample_env and h = sample_handler
          and msg = "\<lparr>msg_Type = GET_STATE, msg_Payload = ''a'', msg_Uuid = ''q1''\<rparr>"
          and cid = "\<lparr>cid_Path = [], cid_Name = ''cc1''\<rparr>"]
        handleGetState_readCommitted [where env = sample_env and h = sample_handler
          and msg = "\<lparr>msg_Type = GET_STATE, msg_Payload = ''a'', msg_Uuid = ''tx1''\<rparr>"
          and cid = "\<lparr>cid_Path = [], cid_Name = ''cc1''\<rparr>"]
  by (simp add: sample_handler_guard sample_handler_marks sample_handler_cid sample_env_def)


subsection \<open>RANGE_QUERY_STATE_CLOSE\<close>




subsection \<open>Writes in query context\<close>

lemma query_context_error_Uuid: "msg_Uuid (query_context_error msg) = msg_Uuid msg"
  by (simp add: query_context_error_def)

lemma HandleMessage_ERROR_in_busy:
  assumes "FSM_current h = busyinitstate \<or> FSM_current h = busyxactstate"
    and "msg_Type m = ERROR"
  shows "HandleMessage env h m =
           Returned (h\<lparr>FSM_current := parent_state (FSM_current h)\<rparr>, m, None) []"
  using assms
  by (auto simp: HandleMessage_def Cannot_def transitions_ERROR FSM_Event_def bind_outcome_def
        run_callback_def enterInitState_def filterError_def parent_state_def Let_def)


text \<open>
  Claim C1. For a message whose UUID is not marked as a transaction (whatever its
  type, so also for \<^verbatim>\<open>PUT_STATE\<close>, \<^verbatim>\<open>DEL_STATE\<close> and \<^verbatim>\<open>INVOKE_CHAINCODE\<close>), the body of
  \<open>enterBusyState\<close> does one thing: it posts the ERROR message with the payload
  "Cannot handle <Type> in query context" on \<open>nextState\<close>, to be sent on. Its effect
  trace holds no \<open>SetState\<close>, \<open>DeleteState\<close>, \<open>LaunchChaincode\<close> or \<open>Execute\<close>. The pump
  then handles that message in the busy state: the FSM goes back to the parent state
  (\<open>busyinit\<close> to \<open>init\<close>, \<open>busyxact\<close> to \<open>transaction\<close>), \<open>HandleMessage\<close> returns nil, and
  the ERROR message is sent to the worker.
\<close>

theorem enterBusyState_query_context:
  assumes "\<not> getIsTransaction h (msg_Uuid msg)"
  shows "enterBusyState_body env h (ArgMessage msg # rest) =
           Returned h [NextState (query_context_error msg) True]
         \<and> (FSM_current h = busyinitstate \<or> FSM_current h = busyxactstate \<longrightarrow>
              HandleMessage env h (query_context_error msg) =
                Returned (h\<lparr>FSM_current := parent_state (FSM_current h)\<rparr>,
                          query_context_error msg, None) []
              \<and> processStream_step env h (FromNextState (Some (query_context_error msg)) True) =
                (case serialSend env (query_context_error msg) of
                   None \<Rightarrow>
                     Returned (Continue (h\<lparr>FSM_current := parent_state (FSM_current h)\<rparr>))
                       [Send (query_context_error msg)]
                 | Some err \<Rightarrow>
                     Returned (Exit (ErrorString (''['' @ shortuuid (msg_Uuid msg)
                                 @ '']serial sending received error '' @ Error err)))
                       (Send (query_context_error msg) # deregister h)))"
proof (intro conjI impI)
  show "enterBusyState_body env h (ArgMessage msg # rest) =
           Returned h [NextState (query_context_error msg) True]"
    using assms by (simp add: enterBusyState_body_def query_context_error_def)
next
  assume busy: "FSM_current h = busyinitstate \<or> FSM_current h = busyxactstate"
  have t: "msg_Type (query_context_error msg) = ERROR"
    by (simp add: query_context_error_def)
  show hm: "HandleMessage env h (query_context_error msg) =
                Returned (h\<lparr>FSM_current := parent_state (FSM_current h)\<rparr>,
                          query_context_error msg, None) []"
    using busy t by (rule HandleMessage_ERROR_in_busy)
  show "processStream_step env h (FromNextState (Some (query_context_error msg)) True) =
                (case serialSend env (query_context_error msg) of
                   None \<Rightarrow>
                     Returned (Continue (h\<lparr>FSM_current := parent_state (FSM_current h)\<rparr>))
                       [Send (query_context_error msg)]
                 | Some err \<Rightarrow>
                     Returned (Exit (ErrorString (''['' @ shortuuid (msg_Uuid msg)
                                 @ '']serial sending received error '' @ Error err)))
                       (Send (query_context_error msg) # deregister h))"
    by (simp add: processStream_step_def select_input_def hm query_context_error_Uuid
          split: option.splits)
qed

theorem enterBusyState_query_context_witness:
  "enterBusyState_body sample_env (sample_handler\<lparr>FSM_current := busyxactstate\<rparr>)
     [ArgMessage \<lparr>msg_Type = PUT_STATE, msg_Payload = ''a0'', msg_Uuid = ''q1''\<rparr>] =
     Returned (sample_handler\<lparr>FSM_current := busyxactstate\<rparr>)
       [NextState \<lparr>msg_Type = ERROR, msg_Payload = ''Cannot handle PUT_STATE in query context'',
                   msg_Uuid = ''q1''\<rparr> True]
   \<and> processStream_step sample_env (sample_handler\<lparr>FSM_current := busyxactstate\<rparr>)
       (FromNextState (Some \<lparr>msg_Type = ERROR,
          msg_Payload = ''Cannot handle PUT_STATE in query context'', msg_Uuid = ''q1''\<rparr>) True) =
     Returned (Continue (sample_handler\<lparr>FSM_current := transactionstate\<rparr>))
       [Send \<lparr>msg_Type = ERROR, msg_Payload = ''Cannot handle PUT_STATE in query context'',
              msg_Uuid = ''q1''\<rparr>]"
  using enterBusyState_query_context [where env = sample_env
          and h = "sample_handler\<lparr>FSM_current := busyxactstate\<rparr>"
          and msg = "\<lparr>msg_Type = PUT_STATE, msg_Payload = ''a0'', msg_Uuid = ''q1''\<rparr>"
          and rest = "[]"]
  by (simp add: query_context_error_def parent_state_def serialSend_def sample_env_def
        getIsTransaction_def sample_handler_def)


subsection \<open>The transition table\<close>

lemma out_of_band_frame:
  "deleteIsTransaction (h\<lparr>FSM_current := s\<rparr>) uuid = (deleteIsTransaction h uuid)\<lparr>FSM_current := s\<rparr>"
  "FSM_current (deleteIsTransaction h uuid) = FSM_current h"
  "encrypt env (deleteIsTransaction h uuid) uuid' p = encrypt env h uuid' p"
  "encrypt env (h\<lparr>FSM_current := s\<rparr>) uuid' p = encrypt env h uuid' p"
  by (auto simp: deleteIsTransaction_def encrypt_def getTxContext_def
        intro!: encryptOrDecrypt_same_context split: option.splits)

text \<open>
  Claim C2, amended. The transition table \<open>NewFSM\<close> builds from the events of the
  source is the table of the specification, for every state and message type;
  \<open>Cannot\<close> holds exactly for the pairs outside it; and for every pair outside it
  whose type is not one of the three out-of-band types (\<^verbatim>\<open>QUERY_COMPLETED\<close>,
  \<^verbatim>\<open>QUERY_ERROR\<close>, \<^verbatim>\<open>INVOKE_QUERY\<close>), \<open>HandleMessage\<close> returns an error and leaves the
  handler as it is, after sending one ERROR frame when the type is a write request
  and the UUID is not marked as a transaction, and no frame otherwise. For the three
  out-of-band types \<open>HandleMessage\<close> returns nil in every state without consulting
  the FSM: the FSM state is left as it is, and the message given back and the
  effects are the same whatever the state.
\<close>

theorem transition_table_and_admissibility:
  "transitions (t, s) = spec_table s t \<and>
   (FSM_current h = s \<longrightarrow> Cannot h t = (spec_table s t = None)) \<and>
   (spec_table s t = None \<and> t \<noteq> QUERY_COMPLETED \<and> t \<noteq> QUERY_ERROR \<and> t \<noteq> INVOKE_QUERY
      \<and> FSM_current h = s \<and> msg_Type msg = t \<longrightarrow>
      (\<exists>err. HandleMessage env h msg =
         Returned (h, msg, Some err)
           (if is_write_request t \<and> \<not> getIsTransaction h (msg_Uuid msg)
            then [Send \<lparr>msg_Type = ERROR,
                        msg_Payload = ''['' @ msg_Uuid msg @ '']Cannot handle ''
                                        @ Type_String t @ '' in query context'',
                        msg_Uuid = msg_Uuid msg\<rparr>]
            else []))) \<and>
   ((t = QUERY_COMPLETED \<or> t = QUERY_ERROR \<or> t = INVOKE_QUERY) \<and> msg_Type msg = t \<longrightarrow>
      (\<exists>h' msg' effs.
         HandleMessage env h msg = Returned (h', msg', None) effs
         \<and> h' = (if t = INVOKE_QUERY then h else deleteIsTransaction h (msg_Uuid msg))
         \<and> FSM_current h' = FSM_current h
         \<and> (\<forall>s'. HandleMessage env (h\<lparr>FSM_current := s'\<rparr>) msg =
                   Returned (h'\<lparr>FSM_current := s'\<rparr>, msg', None) effs)))"
proof (intro conjI impI)
  show "transitions (t, s) = spec_table s t" by (rule transitions_spec_table)
next
  assume "FSM_current h = s"
  then show "Cannot h t = (spec_table s t = None)"
    by (simp add: Cannot_def transitions_spec_table)
next
  assume a: "spec_table s t = None \<and> t \<noteq> QUERY_COMPLETED \<and> t \<noteq> QUERY_ERROR
      \<and> t \<noteq> INVOKE_QUERY \<and> FSM_current h = s \<and> msg_Type msg = t"
  then have "Cannot h (msg_Type msg)"
    by (simp add: Cannot_def transitions_spec_table)
  with a show "\<exists>err. HandleMessage env h msg =
         Returned (h, msg, Some err)
           (if is_write_request t \<and> \<not> getIsTransaction h (msg_Uuid msg)
            then [Send \<lparr>msg_Type = ERROR,
                        msg_Payload = ''['' @ msg_Uuid msg @ '']Cannot handle ''
                                        @ Type_String t @ '' in query context'',
                        msg_Uuid = msg_Uuid msg\<rparr>]
            else [])"
    by (simp add: HandleMessage_def)
next
  assume b: "(t = QUERY_COMPLETED \<or> t = QUERY_ERROR \<or> t = INVOKE_QUERY) \<and> msg_Type msg = t"
  show "\<exists>h' msg' effs.
         HandleMessage env h msg = Returned (h', msg', None) effs
         \<and> h' = (if t = INVOKE_QUERY then h else deleteIsTransaction h (msg_Uuid msg))
         \<and> FSM_current h' = FSM_current h
         \<and> (\<forall>s'. HandleMessage env (h\<lparr>FSM_current := s'\<rparr>) msg =
                   Returned (h'\<lparr>FSM_current := s'\<rparr>, msg', None) effs)"
    using b
    by (auto simp: HandleMessage_def Let_def out_of_band_frame)
qed

theorem transition_table_and_admissibility_witness:
  "transitions (PUT_STATE, readystate) = None
   \<and> Cannot sample_handler PUT_STATE
   \<and> (\<exists>err. HandleMessage sample_env sample_handler
         \<lparr>msg_Type = PUT_STATE, msg_Payload = ''a0'', msg_Uuid = ''q1''\<rparr> =
         Returned (sample_handler,
                   \<lparr>msg_Type = PUT_STATE, msg_Payload = ''a0'', msg_Uuid = ''q1''\<rparr>, Some err)
           [Send \<lparr>msg_Type = ERROR,
                  msg_Payload = ''[q1]Cannot handle PUT_STATE in query context'',
                  msg_Uuid = ''q1''\<rparr>])
   \<and> (\<exists>msg' effs. HandleMessage sample_env sample_handler
         \<lparr>msg_Type = QUERY_COMPLETED, msg_Payload = ''42'', msg_Uuid = ''q1''\<rparr> =
         Returned (deleteIsTransaction sample_handler ''q1'', msg', None) effs)
   \<and> (\<exists>msg' effs. HandleMessage sample_env sample_handler
         \<lparr>msg_Type = INVOKE_QUERY, msg_Payload = ''cc2'', msg_Uuid = ''q1''\<rparr> =
         Returned (sample_handler, msg', None) effs)"
proof -
  have rejected: "transitions (PUT_STATE, readystate) = None
   \<and> Cannot sample_handler PUT_STATE
   \<and> (\<exists>err. HandleMessage sample_env sample_handler
         \<lparr>msg_Type = PUT_STATE, msg_Payload = ''a0'', msg_Uuid = ''q1''\<rparr> =
         Returned (sample_handler,
                   \<lparr>msg_Type = PUT_STATE, msg_Payload = ''a0'', msg_Uuid = ''q1''\<rparr>, Some err)
           [Send \<lparr>msg_Type = ERROR,
                  msg_Payload = ''[q1]Cannot handle PUT_STATE in query context'',
                  msg_Uuid = ''q1''\<rparr>])"
    using transition_table_and_admissibility [where env = sample_env and h = sample_handler
            and s = readystate and t = PUT_STATE
            and msg = "\<lparr>msg_Type = PUT_STATE, msg_Payload = ''a0'', msg_Uuid = ''q1''\<rparr>"]
    by (simp add: spec_table_def is_write_request_def sample_handler_marks sample_handler_state)
  have completed: "\<exists>msg' effs. HandleMessage sample_env sample_handler
         \<lparr>msg_Type = QUERY_COMPLETED, msg_Payload = ''42'', msg_Uuid = ''q1''\<rparr> =
         Returned (deleteIsTransaction sample_handler ''q1'', msg', None) effs"
    using transition_table_and_admissibility [where env = sample_env and h = sample_handler
            and s = readystate and t = QUERY_COMPLETED
            and msg = "\<lparr>msg_Type = QUERY_COMPLETED, msg_Payload = ''42'', msg_Uuid = ''q1''\<rparr>"]
    by auto
  have invoke: "\<exists>msg' effs. HandleMessage sample_env sample_handler
         \<lparr>msg_Type = INVOKE_QUERY, msg_Payload = ''cc2'', msg_Uuid = ''q1''\<rparr> =
         Returned (sample_handler, msg', None) effs"
    using transition_table_and_admissibility [where env = sample_env and h = sample_handler
            and s = readystate and t = INVOKE_QUERY
            and msg = "\<lparr>msg_Type = INVOKE_QUERY, msg_Payload = ''cc2'', msg_Uuid = ''q1''\<rparr>"]
    by auto
  from rejected completed invoke show ?thesis by blast
qed


text \<open>
  The claim as stated fails at the out-of-band types: \<^verbatim>\<open>QUERY_ERROR\<close> in state
  \<open>ready\<close> is not in the table, and \<open>HandleMessage\<close> returns nil for it (it notifies
  the waiter of the UUID).
\<close>

theorem out_of_band_type_returns_nil:
  "spec_table readystate QUERY_ERROR = None
   \<and> FSM_current sample_handler = readystate
   \<and> HandleMessage sample_env sample_handler
       \<lparr>msg_Type = QUERY_ERROR, msg_Payload = ''boom'', msg_Uuid = ''q1''\<rparr> =
     Returned (deleteIsTransaction sample_handler ''q1'',
               \<lparr>msg_Type = QUERY_ERROR, msg_Payload = ''boom'', msg_Uuid = ''q1''\<rparr>, None)
       [ResponseNotify ''q1'' \<lparr>msg_Type = QUERY_ERROR, msg_Payload = ''boom'', msg_Uuid = ''q1''\<rparr>]"
  by (simp add: spec_table_def HandleMessage_def Let_def sample_notify sample_handler_state)


subsection \<open>Paged range scans\<close>

lemma Next_seek: "Next it = (it_ahead it \<noteq> [], seek (it_ahead it))"
  by (cases it; cases "it_ahead it") (auto simp: Next_def seek_def)

lemma seek_simps [simp]:
  "GetKeyValue (seek (kv # rest)) = kv"
  "it_ahead (seek (kv # rest)) = rest"
  "it_ahead (seek []) = []"
  by (simp_all add: seek_def GetKeyValue_def)

lemma seek_cursor: "it_cursor it = Some kv \<Longrightarrow> it = seek (kv # it_ahead it)"
  by (cases it) (simp add: seek_def)

lemma drain_seek:
  assumes "\<forall>(k, v) \<in> set xs. dec v = Inr (d v)"
    and "i \<le> maxRangeQueryStateLimit"
  shows "drain dec i (xs \<noteq> []) (seek xs) acc =
           Inr (drop (maxRangeQueryStateLimit - i) xs \<noteq> [],
                seek (drop (maxRangeQueryStateLimit - i) xs),
                acc @ map (\<lambda>(k, v). (k, d v)) (take (maxRangeQueryStateLimit - i) xs))"
  using assms
proof (induction xs arbitrary: i acc)
  case Nil
  show ?case by (simp add: drain.simps)
next
  case (Cons x xs)
  obtain k v where x: "x = (k, v)" by (cases x)
  show ?case
  proof (cases "i < maxRangeQueryStateLimit")
    case False
    with Cons.prems have "i = maxRangeQueryStateLimit" by simp
    then show ?thesis by (simp add: drain.simps)
  next
    case True
    then have n: "maxRangeQueryStateLimit - i = Suc (maxRangeQueryStateLimit - Suc i)" by simp
    from Cons.prems x have dv: "dec v = Inr (d v)" by simp
    from Cons.prems have rest: "\<forall>(k, v) \<in> set xs. dec v = Inr (d v)" by simp
    from True have le: "Suc i \<le> maxRangeQueryStateLimit" by simp
    have "drain dec i (x # xs \<noteq> []) (seek (x # xs)) acc =
            drain dec (Suc i) (xs \<noteq> []) (seek xs) (acc @ [(k, d v)])"
      using True by (subst drain.simps) (simp add: x dv Next_seek)
    also have "\<dots> = Inr (drop (maxRangeQueryStateLimit - Suc i) xs \<noteq> [],
                seek (drop (maxRangeQueryStateLimit - Suc i) xs),
                (acc @ [(k, d v)]) @ map (\<lambda>(k, v). (k, d v)) (take (maxRangeQueryStateLimit - Suc i) xs))"
      by (rule Cons.IH [OF rest le])
    finally show ?thesis by (simp add: n x)
  qed
qed

lemma drain_seek_fails:
  assumes "j < length xs" and "i + j < maxRangeQueryStateLimit"
    and "\<forall>(k, v) \<in> set (take j xs). dec v = Inr (d v)"
    and "dec (snd (xs ! j)) = Inl err"
  shows "drain dec i (xs \<noteq> []) (seek xs) acc = Inl err"
  using assms
proof (induction xs arbitrary: i j acc)
  case Nil
  then show ?case by simp
next
  case (Cons x xs)
  obtain k v where x: "x = (k, v)" by (cases x)
  from Cons.prems have lt: "i < maxRangeQueryStateLimit" by simp
  show ?case
  proof (cases j)
    case 0
    with Cons.prems x have "dec v = Inl err" by simp
    then show ?thesis using lt by (subst drain.simps) (simp add: x)
  next
    case (Suc j')
    with Cons.prems x have dv: "dec v = Inr (d v)" by simp
    from Suc Cons.prems have p: "j' < length xs" "Suc i + j' < maxRangeQueryStateLimit"
      "\<forall>(k, v) \<in> set (take j' xs). dec v = Inr (d v)" "dec (snd (xs ! j')) = Inl err"
      by simp_all
    have "drain dec i (x # xs \<noteq> []) (seek (x # xs)) acc =
            drain dec (Suc i) (xs \<noteq> []) (seek xs) (acc @ [(k, d v)])"
      using lt by (subst drain.simps) (simp add: x dv Next_seek)
    also have "\<dots> = Inl err" by (rule Cons.IH [OF p])
    finally show ?thesis .
  qed
qed

lemma range_reply_ok:
  assumes marshal: "\<And>r. Marshal_RangeQueryStateResponse env r = Inr (marshal r)"
    and dec: "\<forall>(k, v) \<in> set xs. dec v = Inr (d v)"
    and ctx: "getTxContext h (msg_Uuid msg) = Some txc0"
    and guard: "uuidMap h \<noteq> None"
    and same: "deployTXSecContext h = deployTXSecContext h0"
      "transactionSecContext txContext = transactionSecContext txc0"
      "map_option transactionSecContext (getTxContext h (msg_Uuid msg))
            = map_option transactionSecContext (getTxContext h0 (msg_Uuid msg))"
  shows "\<exists>h'. range_reply env h msg effs txContext iterID None
                 (drain dec 0 (xs \<noteq> []) (seek xs) []) =
               Returned h' (effs @ frame marshal (msg_Uuid msg) iterID (map (\<lambda>(k, v). (k, d v)) xs))
             \<and> scanning h0 (msg_Uuid msg) iterID (drop maxRangeQueryStateLimit xs) h'"
proof -
  have dr: "drain dec 0 (xs \<noteq> []) (seek xs) [] =
              Inr (drop maxRangeQueryStateLimit xs \<noteq> [], seek (drop maxRangeQueryStateLimit xs),
                   map (\<lambda>(k, v). (k, d v)) (take maxRangeQueryStateLimit xs))"
    using drain_seek [OF dec, of 0 "[]"] by simp
  show ?thesis
  proof (cases "length xs \<le> maxRangeQueryStateLimit")
    case True
    then show ?thesis
      using ctx guard same
      by (simp add: dr range_reply_def marshal deferred_serialSend_def frame_def scanning_def
            guard_released getTxContext_store Let_def)
  next
    case False
    then show ?thesis
      using ctx guard same
      by (simp add: dr range_reply_def marshal deferred_serialSend_def frame_def scanning_def
            guard_released getTxContext_store Let_def take_map)
  qed
qed

lemma handleRangeQueryStateNext_step:
  assumes marshal: "\<And>r. Marshal_RangeQueryStateResponse env r = Inr (marshal r)"
    and sc: "scanning h0 uuid iterID xs h"
    and ne: "xs \<noteq> []"
    and dec: "\<forall>(k, v) \<in> set xs. decrypt env h0 uuid v = Inr (d v)"
    and nxt: "msg_Uuid nextMsg = uuid"
      "Unmarshal_RangeQueryStateNext env (msg_Payload nextMsg) = Inr iterID"
  shows "\<exists>h'. handleRangeQueryStateNext env h nextMsg =
               Returned h' (frame marshal uuid iterID (map (\<lambda>(k, v). (k, d v)) xs))
             \<and> scanning h0 uuid iterID (drop maxRangeQueryStateLimit xs) h'"
proof -
  from sc obtain txc where
    adm: "fst (createUUIDEntry h uuid)"
    and dep: "deployTXSecContext h = deployTXSecContext h0"
    and sec: "map_option transactionSecContext (getTxContext h uuid)
                = map_option transactionSecContext (getTxContext h0 uuid)"
    and ctx: "getTxContext h uuid = Some txc"
    and reg: "getRangeQueryIterator txc iterID = Some (seek xs)"
    using ne by (auto simp: scanning_def)
  from adm obtain m where m: "uuidMap h = Some m"
    "createUUIDEntry h uuid = (True, h\<lparr>uuidMap := Some (m(uuid \<mapsto> True))\<rparr>)"
    by (auto elim: createUUIDEntry_admitted)
  let ?hg = "h\<lparr>uuidMap := Some (m(uuid \<mapsto> True))\<rparr>"
  from sec ctx have sec': "Some (transactionSecContext txc)
      = map_option transactionSecContext (getTxContext h0 uuid)"
    by simp
  have d: "decrypt env ?hg uuid = decrypt env h0 uuid"
    by (rule decrypt_same_context) (simp_all add: dep sec)
  have run: "handleRangeQueryStateNext env h nextMsg =
          range_reply env ?hg nextMsg [] txc iterID None
            (drain (decrypt env h0 uuid) 0 (xs \<noteq> []) (seek xs) [])"
    using ne by (simp add: handleRangeQueryStateNext_def nxt m ctx reg d)
  have "\<exists>h'. range_reply env ?hg nextMsg [] txc iterID None
                 (drain (decrypt env h0 uuid) 0 (xs \<noteq> []) (seek xs) []) =
               Returned h' ([] @ frame marshal (msg_Uuid nextMsg) iterID (map (\<lambda>(k, v). (k, d v)) xs))
             \<and> scanning h0 (msg_Uuid nextMsg) iterID (drop maxRangeQueryStateLimit xs) h'"
    by (rule range_reply_ok [OF marshal dec]) (simp_all add: nxt ctx dep sec')
  with run show ?thesis by (simp add: nxt)
qed

lemma handleRangeQueryState_step:
  assumes marshal: "\<And>r. Marshal_RangeQueryStateResponse env r = Inr (marshal r)"
    and adm: "fst (createUUIDEntry h (msg_Uuid msg))"
    and req: "Unmarshal_RangeQueryState env (msg_Payload msg) = Inr rangeQueryState"
    and led: "env_GetLedger env = None"
    and cid: "h_ChaincodeID h = Some cid"
    and iter: "env_GetStateRangeScanIterator env (cid_Name cid) (rqs_StartKey rangeQueryState)
                 (rqs_EndKey rangeQueryState) (\<not> getIsTransaction h (msg_Uuid msg)) = Inr rangeIter"
    and ctx: "getTxContext h (msg_Uuid msg) = Some txc"
    and dec: "\<forall>(k, v) \<in> set (it_ahead rangeIter). decrypt env h (msg_Uuid msg) v = Inr (d v)"
  shows "\<exists>h'. handleRangeQueryState env h msg =
               Returned h'
                 (Ledger_GetStateRangeScanIterator (cid_Name cid) (rqs_StartKey rangeQueryState)
                    (rqs_EndKey rangeQueryState) (\<not> getIsTransaction h (msg_Uuid msg))
                  # frame marshal (msg_Uuid msg) (env_GenerateUUID env)
                      (map (\<lambda>(k, v). (k, d v)) (it_ahead rangeIter)))
             \<and> scanning h (msg_Uuid msg) (env_GenerateUUID env)
                  (drop maxRangeQueryStateLimit (it_ahead rangeIter)) h'"
proof -
  from adm obtain m where m: "uuidMap h = Some m"
    "createUUIDEntry h (msg_Uuid msg)
       = (True, h\<lparr>uuidMap := Some (m(msg_Uuid msg \<mapsto> True))\<rparr>)"
    by (auto elim: createUUIDEntry_admitted)
  let ?uuid = "msg_Uuid msg"
  let ?id = "env_GenerateUUID env"
  let ?hg = "h\<lparr>uuidMap := Some (m(?uuid \<mapsto> True))\<rparr>"
  let ?txc = "putRangeQueryIterator txc ?id rangeIter"
  let ?h2 = "storeTxContext ?hg ?uuid ?txc"
  let ?xs = "it_ahead rangeIter"
  let ?eff = "[Ledger_GetStateRangeScanIterator (cid_Name cid) (rqs_StartKey rangeQueryState)
                    (rqs_EndKey rangeQueryState) (\<not> getIsTransaction h ?uuid)]"
  have ctx2: "getTxContext ?h2 ?uuid = Some ?txc"
    by (rule getTxContext_store) (simp add: ctx)
  have d: "decrypt env ?h2 ?uuid = decrypt env h ?uuid"
    by (rule decrypt_same_context) (simp_all add: ctx2 ctx)
  have run: "handleRangeQueryState env h msg =
          range_reply env ?h2 msg ?eff ?txc ?id None
            (drain (decrypt env h ?uuid) 0 (?xs \<noteq> []) (seek ?xs) [])"
    by (simp add: handleRangeQueryState_def m req led cid iter ctx Let_def Next_seek d)
  have "\<exists>h'. range_reply env ?h2 msg ?eff ?txc ?id None
                 (drain (decrypt env h ?uuid) 0 (?xs \<noteq> []) (seek ?xs) []) =
               Returned h' (?eff @ frame marshal ?uuid ?id (map (\<lambda>(k, v). (k, d v)) ?xs))
             \<and> scanning h ?uuid ?id (drop maxRangeQueryStateLimit ?xs) h'"
    by (rule range_reply_ok [OF marshal dec ctx2]) (simp_all add: m ctx2 ctx)
  with run show ?thesis by simp
qed

lemma scan_frames_frame:
  "scan_frames marshal uuid iterID pairs =
     frame marshal uuid iterID pairs
       @ (if length pairs \<le> maxRangeQueryStateLimit then []
          else scan_frames marshal uuid iterID (drop maxRangeQueryStateLimit pairs))"
  by (subst scan_frames.simps) (simp add: frame_def)

lemma rounds_step:
  "maxRangeQueryStateLimit < n \<Longrightarrow>
   (n - 1) div maxRangeQueryStateLimit
     = Suc ((n - maxRangeQueryStateLimit - 1) div maxRangeQueryStateLimit)"
  by (simp add: maxRangeQueryStateLimit_def le_div_geq)

lemma next_rounds_scan:
  assumes marshal: "\<And>r. Marshal_RangeQueryStateResponse env r = Inr (marshal r)"
    and nxt: "msg_Uuid nextMsg = uuid"
      "Unmarshal_RangeQueryStateNext env (msg_Payload nextMsg) = Inr iterID"
  shows "scanning h0 uuid iterID xs h \<Longrightarrow> xs \<noteq> [] \<Longrightarrow>
         \<forall>(k, v) \<in> set xs. decrypt env h0 uuid v = Inr (d v) \<Longrightarrow>
         \<exists>h'. next_rounds env nextMsg (Suc ((length xs - 1) div maxRangeQueryStateLimit))
                (Returned h effs) =
               Returned h' (effs @ scan_frames marshal uuid iterID (map (\<lambda>(k, v). (k, d v)) xs))
             \<and> scanning h0 uuid iterID [] h'"
proof (induction "length xs" arbitrary: xs h effs rule: less_induct)
  case less
  let ?K = maxRangeQueryStateLimit
  let ?pairs = "map (\<lambda>(k, v). (k, d v)) xs"
  from handleRangeQueryStateNext_step [OF marshal less.prems(1,2,3) nxt]
  obtain h1 where step: "handleRangeQueryStateNext env h nextMsg =
               Returned h1 (frame marshal uuid iterID ?pairs)"
    and sc1: "scanning h0 uuid iterID (drop ?K xs) h1"
    by blast
  show ?case
  proof (cases "length xs \<le> ?K")
    case True
    then have r: "(length xs - Suc 0) div ?K = 0"
      using less.prems(2) by (cases xs) (simp_all add: maxRangeQueryStateLimit_def)
    have f: "scan_frames marshal uuid iterID ?pairs = frame marshal uuid iterID ?pairs"
      using True by (subst scan_frames_frame) simp
    from True sc1 show ?thesis
      by (simp add: r bind_outcome_def step f)
  next
    case False
    then have gt: "?K < length xs" by simp
    have r: "(length xs - 1) div ?K = Suc ((length (drop ?K xs) - 1) div ?K)"
      using rounds_step [OF gt] by simp
    have ne: "drop ?K xs \<noteq> []" using gt by simp
    have shorter: "length (drop ?K xs) < length xs"
      using gt by (simp add: maxRangeQueryStateLimit_def)
    have dec: "\<forall>(k, v) \<in> set (drop ?K xs). decrypt env h0 uuid v = Inr (d v)"
      using less.prems(3) by (auto dest: in_set_dropD)
    from less.hyps [OF shorter sc1 ne dec, of "effs @ frame marshal uuid iterID ?pairs"]
    obtain h' where rest: "next_rounds env nextMsg (Suc ((length (drop ?K xs) - 1) div ?K))
                (Returned h1 (effs @ frame marshal uuid iterID ?pairs)) =
               Returned h' ((effs @ frame marshal uuid iterID ?pairs)
                  @ scan_frames marshal uuid iterID (map (\<lambda>(k, v). (k, d v)) (drop ?K xs)))"
      and sc': "scanning h0 uuid iterID [] h'"
      by blast
    have f: "scan_frames marshal uuid iterID ?pairs =
               frame marshal uuid iterID ?pairs
                 @ scan_frames marshal uuid iterID (map (\<lambda>(k, v). (k, d v)) (drop ?K xs))"
      using gt by (subst scan_frames_frame) (simp add: drop_map)
    have "next_rounds env nextMsg (Suc ((length xs - 1) div ?K)) (Returned h effs) =
            next_rounds env nextMsg (Suc ((length (drop ?K xs) - 1) div ?K))
              (Returned h1 (effs @ frame marshal uuid iterID ?pairs))"
      by (simp only: r next_rounds.simps) (simp add: bind_outcome_def step)
    with rest sc' f show ?thesis by simp
  qed
qed

lemma scan_replies_nonempty: "scan_replies iterID pairs \<noteq> []"
  by (subst scan_replies.simps) simp

lemma scan_frames_replies:
  "scan_frames marshal uuid iterID pairs =
     map (reply_frame marshal uuid) (butlast (scan_replies iterID pairs))
       @ [IterClose iterID, reply_frame marshal uuid (last (scan_replies iterID pairs))]"
proof (induction iterID pairs rule: scan_replies.induct)
  case (1 iterID pairs)
  show ?case
  proof (cases "length pairs \<le> maxRangeQueryStateLimit")
    case True
    then show ?thesis
      by (subst scan_frames.simps, subst (1 2) scan_replies.simps) (simp add: reply_frame_def)
  next
    case False
    with 1 show ?thesis
      by (subst scan_frames.simps, subst (1 2) scan_replies.simps)
         (simp add: reply_frame_def scan_replies_nonempty)
  qed
qed

lemma scan_replies_bounded:
  "r \<in> set (scan_replies iterID pairs) \<Longrightarrow>
     length (KeysAndValues r) \<le> maxRangeQueryStateLimit \<and> ID r = iterID"
proof (induction iterID pairs rule: scan_replies.induct)
  case (1 iterID pairs)
  from "1.prems" show ?case
    by (subst (asm) scan_replies.simps) (auto split: if_splits dest: "1.IH")
qed

lemma scan_replies_concat: "concat (map KeysAndValues (scan_replies iterID pairs)) = pairs"
proof (induction iterID pairs rule: scan_replies.induct)
  case (1 iterID pairs)
  then show ?case
    by (subst scan_replies.simps) simp
qed

lemma scan_replies_butlast:
  "r \<in> set (butlast (scan_replies iterID pairs)) \<Longrightarrow>
     HasMore r \<and> length (KeysAndValues r) = maxRangeQueryStateLimit"
proof (induction iterID pairs rule: scan_replies.induct)
  case (1 iterID pairs)
  from "1.prems" show ?case
    by (subst (asm) scan_replies.simps)
       (auto simp: scan_replies_nonempty split: if_splits dest: "1.IH")
qed

lemma scan_replies_last: "\<not> HasMore (last (scan_replies iterID pairs))"
proof (induction iterID pairs rule: scan_replies.induct)
  case (1 iterID pairs)
  then show ?case
    by (subst scan_replies.simps) (simp add: scan_replies_nonempty)
qed

lemma scan_replies_short:
  "length pairs < maxRangeQueryStateLimit \<Longrightarrow>
     scan_replies iterID pairs = [\<lparr>KeysAndValues = pairs, HasMore = False, ID = iterID\<rparr>]"
  by (subst scan_replies.simps) simp

lemma scanning_done:
  "scanning h0 uuid iterID [] h \<Longrightarrow>
     \<exists>txc. getTxContext h uuid = Some txc \<and> getRangeQueryIterator txc iterID = None"
  by (auto simp: scanning_def)


text \<open>
  Claim C3. A scan whose iterator yields the \<open>N\<close> pairs \<open>entries\<close>, opened by a
  \<^verbatim>\<open>RANGE_QUERY_STATE\<close> request and followed by \<open>(N - 1) div K\<close> requests
  \<^verbatim>\<open>RANGE_QUERY_STATE_NEXT\<close> for the id it was given (\<open>K = 100\<close>), returns, and its
  effects are: the opening of the iterator, one RESPONSE frame per reply of
  \<open>replies\<close>, and one \<open>Close\<close> of the iterator just before the last frame; afterwards
  the iterator is not in the registry of the transaction context. Of \<open>replies\<close>: every
  reply carries at most \<open>K\<close> pairs; together they carry the decrypted entries in
  order; every reply but the last carries \<open>K\<close> pairs and \<open>HasMore = True\<close>; the last has
  \<open>HasMore = False\<close>; and for \<open>N < K\<close> there is one reply, with all \<open>N\<close> pairs. The
  requests are ones the actions handle: the guard is free, the payloads unmarshal,
  the ledger is there, the UUID has a transaction context, every scanned value
  decrypts, and responses marshal.
\<close>

theorem range_scan_pages:
  assumes marshal: "\<And>r. Marshal_RangeQueryStateResponse env r = Inr (marshal r)"
    and adm: "fst (createUUIDEntry h (msg_Uuid msg))"
    and req: "Unmarshal_RangeQueryState env (msg_Payload msg) = Inr rangeQueryState"
    and led: "env_GetLedger env = None"
    and cid: "h_ChaincodeID h = Some cid"
    and iter: "env_GetStateRangeScanIterator env (cid_Name cid) (rqs_StartKey rangeQueryState)
                 (rqs_EndKey rangeQueryState) (\<not> getIsTransaction h (msg_Uuid msg)) = Inr rangeIter"
    and entries: "it_ahead rangeIter = entries"
    and ctx: "getTxContext h (msg_Uuid msg) = Some txc"
    and dec: "\<forall>(k, v) \<in> set entries. decrypt env h (msg_Uuid msg) v = Inr (d v)"
    and nxt: "msg_Uuid nextMsg = msg_Uuid msg"
      "Unmarshal_RangeQueryStateNext env (msg_Payload nextMsg) = Inr (env_GenerateUUID env)"
    and replies: "replies = scan_replies (env_GenerateUUID env) (map (\<lambda>(k, v). (k, d v)) entries)"
  shows "(\<exists>h' txc'.
            next_rounds env nextMsg ((length entries - 1) div maxRangeQueryStateLimit)
              (handleRangeQueryState env h msg) =
            Returned h'
              (Ledger_GetStateRangeScanIterator (cid_Name cid) (rqs_StartKey rangeQueryState)
                 (rqs_EndKey rangeQueryState) (\<not> getIsTransaction h (msg_Uuid msg))
               # map (reply_frame marshal (msg_Uuid msg)) (butlast replies)
               @ [IterClose (env_GenerateUUID env),
                  reply_frame marshal (msg_Uuid msg) (last replies)])
            \<and> getTxContext h' (msg_Uuid msg) = Some txc'
            \<and> getRangeQueryIterator txc' (env_GenerateUUID env) = None)
         \<and> (\<forall>r \<in> set replies. length (KeysAndValues r) \<le> maxRangeQueryStateLimit)
         \<and> concat (map KeysAndValues replies) = map (\<lambda>(k, v). (k, d v)) entries
         \<and> (\<forall>r \<in> set (butlast replies).
               HasMore r \<and> length (KeysAndValues r) = maxRangeQueryStateLimit)
         \<and> \<not> HasMore (last replies)
         \<and> (length entries < maxRangeQueryStateLimit \<longrightarrow>
               replies = [\<lparr>KeysAndValues = map (\<lambda>(k, v). (k, d v)) entries, HasMore = False,
                           ID = env_GenerateUUID env\<rparr>])"
proof -
  let ?K = maxRangeQueryStateLimit
  let ?uuid = "msg_Uuid msg"
  let ?id = "env_GenerateUUID env"
  let ?pairs = "map (\<lambda>(k, v). (k, d v)) entries"
  let ?get = "Ledger_GetStateRangeScanIterator (cid_Name cid) (rqs_StartKey rangeQueryState)
                 (rqs_EndKey rangeQueryState) (\<not> getIsTransaction h ?uuid)"
  from dec entries have dec0: "\<forall>(k, v) \<in> set (it_ahead rangeIter). decrypt env h ?uuid v = Inr (d v)"
    by simp
  from handleRangeQueryState_step [OF marshal adm req led cid iter ctx dec0]
  obtain h1 where first: "handleRangeQueryState env h msg =
               Returned h1 (?get # frame marshal ?uuid ?id ?pairs)"
    and sc1: "scanning h ?uuid ?id (drop ?K entries) h1"
    by (auto simp: entries)
  have run: "\<exists>h'. next_rounds env nextMsg ((length entries - 1) div ?K)
                 (handleRangeQueryState env h msg) =
               Returned h' (?get # scan_frames marshal ?uuid ?id ?pairs)
             \<and> scanning h ?uuid ?id [] h'"
  proof (cases "length entries \<le> ?K")
    case True
    then have r: "(length entries - Suc 0) div ?K = 0"
      by (simp add: maxRangeQueryStateLimit_def)
    have f: "scan_frames marshal ?uuid ?id ?pairs = frame marshal ?uuid ?id ?pairs"
      using True by (subst scan_frames_frame) simp
    from True sc1 show ?thesis by (simp add: r first f)
  next
    case False
    then have gt: "?K < length entries" by simp
    have r: "(length entries - Suc 0) div ?K = Suc ((length (drop ?K entries) - 1) div ?K)"
      using rounds_step [OF gt] by simp
    have ne: "drop ?K entries \<noteq> []" using gt by simp
    have decr: "\<forall>(k, v) \<in> set (drop ?K entries). decrypt env h ?uuid v = Inr (d v)"
      using dec by (auto dest: in_set_dropD)
    from next_rounds_scan [OF marshal nxt sc1 ne decr, of "?get # frame marshal ?uuid ?id ?pairs"]
    obtain h' where rest: "next_rounds env nextMsg (Suc ((length (drop ?K entries) - 1) div ?K))
                (Returned h1 (?get # frame marshal ?uuid ?id ?pairs)) =
               Returned h' ((?get # frame marshal ?uuid ?id ?pairs)
                  @ scan_frames marshal ?uuid ?id (map (\<lambda>(k, v). (k, d v)) (drop ?K entries)))"
      and sc': "scanning h ?uuid ?id [] h'"
      by blast
    have f: "scan_frames marshal ?uuid ?id ?pairs =
               frame marshal ?uuid ?id ?pairs
                 @ scan_frames marshal ?uuid ?id (map (\<lambda>(k, v). (k, d v)) (drop ?K entries))"
      using gt by (subst scan_frames_frame) (simp add: drop_map)
    from rest sc' show ?thesis by (simp add: r first f)
  qed
  then obtain h' where whole: "next_rounds env nextMsg ((length entries - 1) div ?K)
                 (handleRangeQueryState env h msg) =
               Returned h' (?get # scan_frames marshal ?uuid ?id ?pairs)"
    and fin: "scanning h ?uuid ?id [] h'"
    by blast
  from scanning_done [OF fin] obtain txc' where
    reg: "getTxContext h' ?uuid = Some txc'" "getRangeQueryIterator txc' ?id = None"
    by blast
  have part1: "\<exists>h' txc'.
            next_rounds env nextMsg ((length entries - 1) div ?K)
              (handleRangeQueryState env h msg) =
            Returned h'
              (?get # map (reply_frame marshal ?uuid) (butlast replies)
               @ [IterClose ?id, reply_frame marshal ?uuid (last replies)])
            \<and> getTxContext h' ?uuid = Some txc'
            \<and> getRangeQueryIterator txc' ?id = None"
    using whole reg by (simp add: scan_frames_replies replies)
  have part2: "\<forall>r \<in> set replies. length (KeysAndValues r) \<le> ?K"
    using scan_replies_bounded by (auto simp: replies)
  have part3: "concat (map KeysAndValues replies) = ?pairs"
    by (simp add: replies scan_replies_concat)
  have part4: "\<forall>r \<in> set (butlast replies). HasMore r \<and> length (KeysAndValues r) = ?K"
    using scan_replies_butlast by (auto simp: replies)
  have part5: "\<not> HasMore (last replies)"
    by (simp add: replies scan_replies_last)
  have part6: "length entries < ?K \<longrightarrow>
               replies = [\<lparr>KeysAndValues = ?pairs, HasMore = False, ID = ?id\<rparr>]"
    by (simp add: replies scan_replies_short)
  from part1 part2 part3 part4 part5 part6 show ?thesis by blast
qed

lemma map_pair_id: "map (\<lambda>(k, v). (k, v)) xs = xs"
  by (induction xs) auto

lemma scan_replies_250:
  "length xs = 250 \<Longrightarrow>
   scan_replies i xs =
     [\<lparr>KeysAndValues = take 100 xs, HasMore = True, ID = i\<rparr>,
      \<lparr>KeysAndValues = take 100 (drop 100 xs), HasMore = True, ID = i\<rparr>,
      \<lparr>KeysAndValues = drop 200 xs, HasMore = False, ID = i\<rparr>]"
  by (simp add: scan_replies.simps [of i xs] scan_replies.simps [of i "drop 100 xs"]
        scan_replies.simps [of i "drop 200 xs"] maxRangeQueryStateLimit_def)

lemma decrypt_no_helper: "env_secHelper env = None \<Longrightarrow> decrypt env h uuid v = Inr v"
  by (simp add: decrypt_def encryptOrDecrypt_def)

theorem range_scan_pages_witness:
  "\<exists>h' txc'.
     next_rounds big_env
       \<lparr>msg_Type = RANGE_QUERY_STATE_NEXT, msg_Payload = ''it1'', msg_Uuid = ''q1''\<rparr> 2
       (handleRangeQueryState big_env sample_handler
          \<lparr>msg_Type = RANGE_QUERY_STATE, msg_Payload = ''k'', msg_Uuid = ''q1''\<rparr>) =
     Returned h'
       [Ledger_GetStateRangeScanIterator ''cc1'' ''k'' ''k'' True,
        reply_frame sample_marshal ''q1''
          \<lparr>KeysAndValues = take 100 big_entries, HasMore = True, ID = ''it1''\<rparr>,
        reply_frame sample_marshal ''q1''
          \<lparr>KeysAndValues = take 100 (drop 100 big_entries), HasMore = True, ID = ''it1''\<rparr>,
        IterClose ''it1'',
        reply_frame sample_marshal ''q1''
          \<lparr>KeysAndValues = drop 200 big_entries, HasMore = False, ID = ''it1''\<rparr>]
     \<and> getTxContext h' ''q1'' = Some txc'
     \<and> getRangeQueryIterator txc' ''it1'' = None"
proof -
  have dec: "\<forall>(k, v) \<in> set big_entries. decrypt big_env sample_handler ''q1'' v = Inr v"
    by (simp add: decrypt_no_helper big_env_sel)
  show ?thesis
    using range_scan_pages [where env = big_env and marshal = sample_marshal
            and h = sample_handler
            and msg = "\<lparr>msg_Type = RANGE_QUERY_STATE, msg_Payload = ''k'', msg_Uuid = ''q1''\<rparr>"
            and nextMsg = "\<lparr>msg_Type = RANGE_QUERY_STATE_NEXT, msg_Payload = ''it1'',
                            msg_Uuid = ''q1''\<rparr>"
            and rangeQueryState = "\<lparr>rqs_StartKey = ''k'', rqs_EndKey = ''k''\<rparr>"
            and cid = "\<lparr>cid_Path = [], cid_Name = ''cc1''\<rparr>"
            and rangeIter = "\<lparr>it_cursor = None, it_ahead = big_entries\<rparr>"
            and entries = big_entries and d = "\<lambda>v. v"
            and txc = "\<lparr>transactionSecContext = Some (sample_tx CHAINCODE_QUERY ''q1''),
                         rangeQueryIteratorMap = []\<rparr>"
            and replies = "scan_replies ''it1'' big_entries"]
      dec
    by (simp add: big_env_sel sample_handler_guard sample_handler_cid sample_handler_marks
          sample_handler_q1 map_pair_id scan_replies_250 length_big_entries
          maxRangeQueryStateLimit_def)
qed


subsection \<open>A value that does not decrypt\<close>

text \<open>
  Claim C4 does not hold of the code. When a value scanned for a frame (the one at
  position \<open>j < K\<close> of the pending pairs, the ones before it decrypting) does not
  decrypt, both range actions panic: the branch builds its payload from
  \<^verbatim>\<open>unmarshalErr.Error()\<close>, and \<^verbatim>\<open>unmarshalErr\<close> is nil there. No ERROR frame is sent
  and the iterator is neither closed nor removed: the trace holds the opening of the
  iterator at most.
\<close>

theorem range_query_decrypt_failure_panics:
  "(fst (createUUIDEntry h (msg_Uuid msg))
      \<and> Unmarshal_RangeQueryState env (msg_Payload msg) = Inr rangeQueryState
      \<and> env_GetLedger env = None \<and> h_ChaincodeID h = Some cid
      \<and> env_GetStateRangeScanIterator env (cid_Name cid) (rqs_StartKey rangeQueryState)
           (rqs_EndKey rangeQueryState) (\<not> getIsTransaction h (msg_Uuid msg)) = Inr rangeIter
      \<and> getTxContext h (msg_Uuid msg) = Some txc
      \<and> j < length (it_ahead rangeIter) \<and> j < maxRangeQueryStateLimit
      \<and> (\<forall>(k, v) \<in> set (take j (it_ahead rangeIter)). decrypt env h (msg_Uuid msg) v = Inr (d v))
      \<and> decrypt env h (msg_Uuid msg) (snd (it_ahead rangeIter ! j)) = Inl err
    \<longrightarrow> handleRangeQueryState env h msg =
          Panicked [Ledger_GetStateRangeScanIterator (cid_Name cid) (rqs_StartKey rangeQueryState)
                      (rqs_EndKey rangeQueryState) (\<not> getIsTransaction h (msg_Uuid msg))])
   \<and> (fst (createUUIDEntry h (msg_Uuid msg))
      \<and> Unmarshal_RangeQueryStateNext env (msg_Payload msg) = Inr iterID
      \<and> getTxContext h (msg_Uuid msg) = Some txc
      \<and> getRangeQueryIterator txc iterID = Some rangeIter
      \<and> it_cursor rangeIter = Some kv
      \<and> j < length (kv # it_ahead rangeIter) \<and> j < maxRangeQueryStateLimit
      \<and> (\<forall>(k, v) \<in> set (take j (kv # it_ahead rangeIter)).
             decrypt env h (msg_Uuid msg) v = Inr (d v))
      \<and> decrypt env h (msg_Uuid msg) (snd ((kv # it_ahead rangeIter) ! j)) = Inl err
    \<longrightarrow> handleRangeQueryStateNext env h msg = Panicked [])"
proof (intro conjI impI)
  let ?uuid = "msg_Uuid msg"
  let ?id = "env_GenerateUUID env"
  let ?xs = "it_ahead rangeIter"
  assume a: "fst (createUUIDEntry h ?uuid)
      \<and> Unmarshal_RangeQueryState env (msg_Payload msg) = Inr rangeQueryState
      \<and> env_GetLedger env = None \<and> h_ChaincodeID h = Some cid
      \<and> env_GetStateRangeScanIterator env (cid_Name cid) (rqs_StartKey rangeQueryState)
           (rqs_EndKey rangeQueryState) (\<not> getIsTransaction h ?uuid) = Inr rangeIter
      \<and> getTxContext h ?uuid = Some txc
      \<and> j < length ?xs \<and> j < maxRangeQueryStateLimit
      \<and> (\<forall>(k, v) \<in> set (take j ?xs). decrypt env h ?uuid v = Inr (d v))
      \<and> decrypt env h ?uuid (snd (?xs ! j)) = Inl err"
  then obtain m where m: "uuidMap h = Some m"
    "createUUIDEntry h ?uuid = (True, h\<lparr>uuidMap := Some (m(?uuid \<mapsto> True))\<rparr>)"
    by (auto elim: createUUIDEntry_admitted)
  let ?hg = "h\<lparr>uuidMap := Some (m(?uuid \<mapsto> True))\<rparr>"
  let ?txc = "putRangeQueryIterator txc ?id rangeIter"
  let ?h2 = "storeTxContext ?hg ?uuid ?txc"
  from a have ctx: "getTxContext h ?uuid = Some txc" by simp
  have ctx2: "getTxContext ?h2 ?uuid = Some ?txc"
    by (rule getTxContext_store) (simp add: ctx)
  have d: "decrypt env ?h2 ?uuid = decrypt env h ?uuid"
    by (rule decrypt_same_context) (simp_all add: ctx2 ctx)
  have fails: "drain (decrypt env h ?uuid) 0 (?xs \<noteq> []) (seek ?xs) [] = Inl err"
    using a by (intro drain_seek_fails [where j = j and d = d]) simp_all
  show "handleRangeQueryState env h msg =
          Panicked [Ledger_GetStateRangeScanIterator (cid_Name cid) (rqs_StartKey rangeQueryState)
                      (rqs_EndKey rangeQueryState) (\<not> getIsTransaction h ?uuid)]"
    using a by (simp add: handleRangeQueryState_def m Let_def Next_seek d fails range_reply_def)
next
  let ?uuid = "msg_Uuid msg"
  let ?xs = "kv # it_ahead rangeIter"
  assume a: "fst (createUUIDEntry h ?uuid)
      \<and> Unmarshal_RangeQueryStateNext env (msg_Payload msg) = Inr iterID
      \<and> getTxContext h ?uuid = Some txc
      \<and> getRangeQueryIterator txc iterID = Some rangeIter
      \<and> it_cursor rangeIter = Some kv
      \<and> j < length ?xs \<and> j < maxRangeQueryStateLimit
      \<and> (\<forall>(k, v) \<in> set (take j ?xs). decrypt env h ?uuid v = Inr (d v))
      \<and> decrypt env h ?uuid (snd (?xs ! j)) = Inl err"
  then obtain m where m: "uuidMap h = Some m"
    "createUUIDEntry h ?uuid = (True, h\<lparr>uuidMap := Some (m(?uuid \<mapsto> True))\<rparr>)"
    by (auto elim: createUUIDEntry_admitted)
  from a have it: "rangeIter = seek ?xs" by (simp add: seek_cursor)
  have "drain (decrypt env h ?uuid) 0 (?xs \<noteq> []) (seek ?xs) [] = Inl err"
    using a by (intro drain_seek_fails [where j = j and d = d]) simp_all
  then have fails: "drain (decrypt env h ?uuid) 0 True rangeIter [] = Inl err"
    using it by simp
  have d: "decrypt env (h\<lparr>uuidMap := Some (m(?uuid \<mapsto> True))\<rparr>) ?uuid = decrypt env h ?uuid"
    by (rule decrypt_same_context) simp_all
  show "handleRangeQueryStateNext env h msg = Panicked []"
    using a by (simp add: handleRangeQueryStateNext_def m d fails range_reply_def)
qed

lemma sample_decrypt_fails:
  "decrypt secure_env sample_handler ''q1'' ''1'' = Inl (ErrorString ''cannot decrypt'')"
  "decrypt secure_env sample_handler_scanning ''q1'' ''2'' = Inl (ErrorString ''cannot decrypt'')"
  by (simp_all add: decrypt_def encryptOrDecrypt_def secure_env_helper sample_handler_q1
        sample_handler_scanning_q1 sample_tx_sel sample_secHelper_def
        sample_encryptor_def Let_def)

theorem range_query_decrypt_failure_panics_witness:
  "handleRangeQueryState secure_env sample_handler
     \<lparr>msg_Type = RANGE_QUERY_STATE, msg_Payload = ''a'', msg_Uuid = ''q1''\<rparr> =
     Panicked [Ledger_GetStateRangeScanIterator ''cc1'' ''a'' ''a'' True]
   \<and> handleRangeQueryStateNext secure_env sample_handler_scanning
       \<lparr>msg_Type = RANGE_QUERY_STATE_NEXT, msg_Payload = ''it1'', msg_Uuid = ''q1''\<rparr> =
     Panicked []"
proof -
  have first: "handleRangeQueryState secure_env sample_handler
     \<lparr>msg_Type = RANGE_QUERY_STATE, msg_Payload = ''a'', msg_Uuid = ''q1''\<rparr> =
     Panicked [Ledger_GetStateRangeScanIterator ''cc1'' ''a'' ''a'' True]"
    using range_query_decrypt_failure_panics [where env = secure_env and h = sample_handler
            and msg = "\<lparr>msg_Type = RANGE_QUERY_STATE, msg_Payload = ''a'', msg_Uuid = ''q1''\<rparr>"
            and rangeQueryState = "\<lparr>rqs_StartKey = ''a'', rqs_EndKey = ''a''\<rparr>"
            and cid = "\<lparr>cid_Path = [], cid_Name = ''cc1''\<rparr>"
            and rangeIter = "\<lparr>it_cursor = None,
                               it_ahead = [(''a'', ''1''), (''b'', ''2''), (''c'', ''3'')]\<rparr>"
            and txc = "\<lparr>transactionSecContext = Some (sample_tx CHAINCODE_QUERY ''q1''),
                         rangeQueryIteratorMap = []\<rparr>"
            and j = 0 and err = "ErrorString ''cannot decrypt''"]
    by (simp add: secure_env_sel sample_handler_guard sample_handler_cid sample_handler_marks
          sample_handler_q1 sample_decrypt_fails maxRangeQueryStateLimit_def)
  have nxt: "handleRangeQueryStateNext secure_env sample_handler_scanning
       \<lparr>msg_Type = RANGE_QUERY_STATE_NEXT, msg_Payload = ''it1'', msg_Uuid = ''q1''\<rparr> =
     Panicked []"
    using range_query_decrypt_failure_panics [where env = secure_env
            and h = sample_handler_scanning
            and msg = "\<lparr>msg_Type = RANGE_QUERY_STATE_NEXT, msg_Payload = ''it1'',
                        msg_Uuid = ''q1''\<rparr>"
            and iterID = "''it1''"
            and rangeIter = "\<lparr>it_cursor = Some (''b'', ''2''), it_ahead = [(''c'', ''3'')]\<rparr>"
            and kv = "(''b'', ''2'')"
            and txc = "\<lparr>transactionSecContext = Some (sample_tx CHAINCODE_QUERY ''q1''),
                         rangeQueryIteratorMap =
                           [(''it1'', \<lparr>it_cursor = Some (''b'', ''2''),
                                        it_ahead = [(''c'', ''3'')]\<rparr>)]\<rparr>"
            and j = 0 and err = "ErrorString ''cannot decrypt''"]
    by (simp add: secure_env_sel sample_decrypt_fails maxRangeQueryStateLimit_def
          getRangeQueryIterator_def sample_handler_scanning_q1)
  from first nxt show ?thesis by simp
qed


subsection \<open>The error filter\<close>

text \<open>
  Claim C5 does not hold of the code. \<open>filterError\<close> returns nil not only for no
  error, a \<^verbatim>\<open>NoTransitionError\<close> and a \<^verbatim>\<open>CanceledError\<close> without inner cause, but for
  every error of another type as well (a plain error, an \<^verbatim>\<open>InvalidEventError\<close>, an
  \<^verbatim>\<open>UnknownEventError\<close>): it returns an error only for a \<^verbatim>\<open>NoTransitionError\<close> or
  \<^verbatim>\<open>CanceledError\<close> that carries an inner cause.
\<close>

theorem filterError_nil_iff:
  "(filterError err = None) =
     (err = None \<or> err = Some (NoTransitionError None) \<or> err = Some (CanceledError None)
      \<or> (\<exists>s. err = Some (ErrorString s))
      \<or> (\<exists>ev st. err = Some (InvalidEventError ev st))
      \<or> (\<exists>ev. err = Some (UnknownEventError ev)))"
  by (auto simp: filterError_def split: option.splits error.splits)


subsection \<open>Entering ready and end\<close>

text \<open>
  Claim C9. When the first argument of the event is not a chaincode message,
  \<open>enterReadyState\<close> and \<open>enterEndState\<close> panic (they read \<^verbatim>\<open>msg.Uuid\<close> of a nil
  message before they test \<^verbatim>\<open>ok\<close>) instead of cancelling the event;
  \<open>enterEndState\<close> still runs its deferred \<open>deregister\<close>. Each of the two returns
  exactly when the first argument is a chaincode message.
\<close>

theorem enter_ready_end_read_Uuid_before_ok:
  "(e_Args e = a # rest \<and> \<not> first_arg_is_message (e_Args e) \<longrightarrow>
      enterReadyState env h e = Panicked [] \<and> enterEndState env h e = Panicked (deregister h)) \<and>
   ((\<exists>r effs. enterReadyState env h e = Returned r effs) = first_arg_is_message (e_Args e)) \<and>
   ((\<exists>r effs. enterEndState env h e = Returned r effs) = first_arg_is_message (e_Args e))"
  by (auto simp: first_arg_is_message_def enterReadyState_def enterEndState_def Let_def
        split: list.splits event_arg.splits)

theorem enter_ready_end_read_Uuid_before_ok_witness:
  "enterReadyState sample_env sample_handler (sample_event [ArgOther]) = Panicked []
   \<and> enterEndState sample_env sample_handler (sample_event [ArgOther])
       = Panicked [Support_deregisterHandler]
   \<and> (\<exists>r effs. enterReadyState sample_env sample_handler
         (sample_event [ArgMessage \<lparr>msg_Type = COMPLETED, msg_Payload = [], msg_Uuid = ''tx1''\<rparr>])
         = Returned r effs)
   \<and> (\<exists>r effs. enterEndState sample_env sample_handler
         (sample_event [ArgMessage \<lparr>msg_Type = ERROR, msg_Payload = [], msg_Uuid = ''tx1''\<rparr>])
         = Returned r effs)"
  using enter_ready_end_read_Uuid_before_ok [where env = sample_env and h = sample_handler
          and e = "sample_event [ArgOther]" and a = ArgOther and rest = "[]"]
        enter_ready_end_read_Uuid_before_ok [where env = sample_env and h = sample_handler
          and e = "sample_event [ArgMessage \<lparr>msg_Type = COMPLETED, msg_Payload = [], msg_Uuid = ''tx1''\<rparr>]"]
        enter_ready_end_read_Uuid_before_ok [where env = sample_env and h = sample_handler
          and e = "sample_event [ArgMessage \<lparr>msg_Type = ERROR, msg_Payload = [], msg_Uuid = ''tx1''\<rparr>]"]
  by (simp add: first_arg_is_message_def sample_event_def deregister_def sample_handler_def)


subsection \<open>ERROR in state init\<close>

text \<open>
  Claim C10 does not hold of the code. For every ERROR message handled in state
  \<open>init\<close> the FSM enters \<open>end\<close>, \<open>enterEndState\<close> notifies the waiter of the UUID,
  deregisters the handler and cancels the event with "Entered end state", and the
  event returns that error as it is: a plain error, not a \<^verbatim>\<open>CanceledError\<close>.
  \<open>filterError\<close> turns it into nil, so \<open>HandleMessage\<close> returns nil and the pump goes
  on with the handler in state \<open>end\<close>.
\<close>

theorem HandleMessage_ERROR_in_init:
  assumes "FSM_current h = initstate" and "msg_Type msg = ERROR"
  shows "FSM_Event env h ERROR [ArgMessage msg] =
           Returned (deleteIsTransaction (h\<lparr>FSM_current := endstate\<rparr>) (msg_Uuid msg),
                     Some (ErrorString ''Entered end state''))
             (notify h msg @ deregister h)
         \<and> HandleMessage env h msg =
           Returned (deleteIsTransaction (h\<lparr>FSM_current := endstate\<rparr>) (msg_Uuid msg), msg, None)
             (notify h msg @ deregister h)
         \<and> processStream_step env h (FromStream (RecvMessage (Some msg))) =
           Returned (Continue (deleteIsTransaction (h\<lparr>FSM_current := endstate\<rparr>) (msg_Uuid msg)))
             (notify h msg @ deregister h)"
proof -
  have ev: "FSM_Event env h ERROR [ArgMessage msg] =
           Returned (deleteIsTransaction (h\<lparr>FSM_current := endstate\<rparr>) (msg_Uuid msg),
                     Some (ErrorString ''Entered end state''))
             (notify h msg @ deregister h)"
    using assms
    by (simp add: FSM_Event_def transitions_ERROR bind_outcome_def run_callback_def
          enterEndState_def Cancel_def Let_def)
  have hm: "HandleMessage env h msg =
           Returned (deleteIsTransaction (h\<lparr>FSM_current := endstate\<rparr>) (msg_Uuid msg), msg, None)
             (notify h msg @ deregister h)"
    using assms ev
    by (simp add: HandleMessage_def Cannot_def transitions_ERROR bind_outcome_def filterError_def)
  have "processStream_step env h (FromStream (RecvMessage (Some msg))) =
           Returned (Continue (deleteIsTransaction (h\<lparr>FSM_current := endstate\<rparr>) (msg_Uuid msg)))
             (notify h msg @ deregister h)"
    using hm by (simp add: processStream_step_def select_input_def)
  with ev hm show ?thesis by simp
qed

theorem HandleMessage_ERROR_in_init_witness:
  "HandleMessage sample_env (sample_handler\<lparr>FSM_current := initstate\<rparr>)
     \<lparr>msg_Type = ERROR, msg_Payload = ''boom'', msg_Uuid = ''dep''\<rparr> =
   Returned (deleteIsTransaction (sample_handler\<lparr>FSM_current := endstate\<rparr>) ''dep'',
             \<lparr>msg_Type = ERROR, msg_Payload = ''boom'', msg_Uuid = ''dep''\<rparr>, None)
     [ResponseNotify ''dep'' \<lparr>msg_Type = ERROR, msg_Payload = ''boom'', msg_Uuid = ''dep''\<rparr>,
      Support_deregisterHandler]"
  using HandleMessage_ERROR_in_init [where env = sample_env
          and h = "sample_handler\<lparr>FSM_current := initstate\<rparr>"
          and msg = "\<lparr>msg_Type = ERROR, msg_Payload = ''boom'', msg_Uuid = ''dep''\<rparr>"]
  by (simp add: notify_def deregister_def getTxContext_def sample_handler_def)


end
